theory Spec2Isabelle
  imports Main
begin

section \<open>The session-aware API client (src/services/api.ts)\<close>

text \<open>
  A shallow embedding of the request layer of the admin console: the module-level
  token, \<open>persistToken\<close>, \<open>request\<close> and the wrappers \<open>authApi.login\<close>,
  \<open>authApi.me\<close>, \<open>authApi.logout\<close> and \<open>currencyApi.getRates\<close>.
  The module's mutable state and the calls it issues are threaded explicitly; every
  \<open>throw\<close> and every rejected \<open>await\<close> is a left injection of the result.
\<close>

subsection \<open>JavaScript values\<close>

text \<open>
  The values the module handles at run time (\<open>unknown\<close> in the source): what
  \<open>JSON.parse\<close> produces, plus \<open>undefined\<close>. An object is the list of its own
  properties. Numbers are never inspected by the module beyond their truthiness and
  are kept as integers.
\<close>

datatype js =
    JUndefined
  | JNull
  | JBool bool
  | JNum int
  | JStr string
  | JArr "js list"
  | JObj "(string \<times> js) list"

text \<open>What \<open>if (v)\<close> and \<open>!v\<close> test.\<close>

fun truthy :: "js \<Rightarrow> bool" where
  "truthy JUndefined = False"
| "truthy JNull = False"
| "truthy (JBool b) = b"
| "truthy (JNum n) = (n \<noteq> 0)"
| "truthy (JStr s) = (s \<noteq> [])"
| "truthy (JArr xs) = True"
| "truthy (JObj kvs) = True"

text \<open>\<open>isRecord\<close> (lines 56-57): \<open>typeof value === 'object' && value !== null\<close>;
  arrays are objects for \<open>typeof\<close>.\<close>

fun isRecord :: "js \<Rightarrow> bool" where
  "isRecord (JArr xs) = True"
| "isRecord (JObj kvs) = True"
| "isRecord v = False"

text \<open>
  \<open>k in v\<close> and \<open>v.k\<close> for a value that passed \<open>isRecord\<close>, at the keys this module
  uses (\<open>data\<close>, \<open>error\<close>, \<open>message\<close>, \<open>token\<close>, \<open>user\<close>, \<open>rates\<close>): none of them
  is a member of an array or of a primitive, so only an object can hold one.
\<close>

fun has_key :: "js \<Rightarrow> string \<Rightarrow> bool" where
  "has_key (JObj kvs) k = (k \<in> fst ` set kvs)"
| "has_key v k = False"

fun get_prop :: "js \<Rightarrow> string \<Rightarrow> js" where
  "get_prop (JObj kvs) k = (case map_of kvs k of None \<Rightarrow> JUndefined | Some v \<Rightarrow> v)"
| "get_prop v k = JUndefined"

subsection \<open>Errors\<close>

text \<open>
  \<open>ApiError\<close> (lines 32-42) carries a message, an optional status and optional details
  (\<open>undefined\<close> when the constructor is called without them). \<open>NativeError\<close> stands for
  everything thrown that is not an \<open>ApiError\<close>: a rejected \<open>fetch\<close>, a rejected
  \<open>response.json()\<close>, a \<open>TypeError\<close> of a property read on \<open>null\<close>.
\<close>

datatype thrown =
    ApiError string "nat option" js
  | NativeError string

text \<open>\<open>error instanceof ApiError && error.status === 401\<close> (lines 261 and 278).\<close>

fun is_ApiError_401 :: "thrown \<Rightarrow> bool" where
  "is_ApiError_401 (ApiError m st d) = (st = Some 401)"
| "is_ApiError_401 (NativeError n) = False"

text \<open>\<open>v.k\<close> on a value of unknown shape: reading a property of \<open>null\<close> or
  \<open>undefined\<close> throws a \<open>TypeError\<close>.\<close>

fun read_member :: "js \<Rightarrow> string \<Rightarrow> thrown + js" where
  "read_member JUndefined k = Inl (NativeError ''TypeError'')"
| "read_member JNull k = Inl (NativeError ''TypeError'')"
| "read_member v k = Inr (get_prop v k)"

subsection \<open>Strings\<close>

fun startsWith :: "string \<Rightarrow> string \<Rightarrow> bool" where
  "startsWith s [] = True"
| "startsWith [] (c # cs) = False"
| "startsWith (x # xs) (c # cs) = (x = c \<and> startsWith xs cs)"

fun str_includes :: "string \<Rightarrow> string \<Rightarrow> bool" where
  "str_includes [] sub = (sub = [])"
| "str_includes (x # xs) sub = (startsWith (x # xs) sub \<or> str_includes xs sub)"

definition digit_char :: "nat \<Rightarrow> char" where
  "digit_char d = char_of (48 + d)"

text \<open>The decimal numeral a template literal prints for a status code.\<close>

fun string_of_nat :: "nat \<Rightarrow> string" where
  "string_of_nat n =
     (if n < 10 then [digit_char n] else string_of_nat (n div 10) @ [digit_char (n mod 10)])"

declare string_of_nat.simps [simp del]

subsection \<open>The platform\<close>

text \<open>
  \<open>FormData\<close> is opaque to the module: it is only recognised and passed on.
\<close>

datatype form_data = FormData "(string \<times> string) list"

text \<open>The \<open>body\<close> option, of type \<open>unknown\<close>: a form or any other value.\<close>

datatype body_value = FormValue form_data | PlainValue js

record RequestOptions =
  opt_method :: "string option"
  opt_body :: body_value
  opt_authenticated :: "bool option"

text \<open>The second argument of \<open>fetch\<close>, with the URL; \<open>headers\<close> is the \<open>Headers\<close>
  object, \<open>http_method\<close> is its \<open>method\<close> field, and \<open>body\<close> is \<open>undefined\<close> when
  nothing is sent.\<close>

datatype BodyInit = FormBody form_data | TextBody string

record fetch_call =
  url :: string
  http_method :: string
  headers :: "string \<rightharpoonup> string"
  body :: "BodyInit option"

text \<open>
  A \<open>Response\<close> as the module observes it: \<open>response.status\<close>,
  \<open>response.headers.get('content-type')\<close>, and what \<open>response.json()\<close> and
  \<open>response.text()\<close> resolve to, or reject with.
\<close>

record Response =
  status :: nat
  content_type :: "string option"
  json_body :: "thrown + js"
  text_body :: "thrown + string"

text \<open>\<open>response.ok\<close>: the status is in the range 200-299.\<close>

definition ok :: "Response \<Rightarrow> bool" where
  "ok response = (200 \<le> status response \<and> status response \<le> 299)"

text \<open>
  What the module takes from its environment: the build-time variable
  \<open>VITE_API_BASE_URL\<close>, \<open>JSON.stringify\<close>, the string conversion of a value that
  is not a string, \<open>URLSearchParams.toString\<close>, and \<open>fetch\<close>. The remote service may
  answer the same call differently over time, so \<open>fetch\<close> sees the calls issued before.
\<close>

record runtime =
  VITE_API_BASE_URL :: "string option"
  JSON_stringify :: "js \<Rightarrow> string"
  ToString :: "js \<Rightarrow> string"
  URLSearchParams_toString :: "(string \<times> string) list \<Rightarrow> string"
  fetch :: "fetch_call list \<Rightarrow> fetch_call \<Rightarrow> thrown + Response"

text \<open>String conversion in a template literal and in \<open>localStorage.setItem\<close>.\<close>

fun to_string :: "runtime \<Rightarrow> js \<Rightarrow> string" where
  "to_string rt (JStr s) = s"
| "to_string rt v = ToString rt v"

subsection \<open>Module state\<close>

text \<open>
  \<open>accessToken\<close> (line 12), \<open>window.localStorage\<close> (\<open>None\<close> when
  \<open>typeof window === 'undefined'\<close>) and the calls to \<open>fetch\<close> made so far, oldest first.
\<close>

record client =
  accessToken :: js
  localStorage :: "(string \<rightharpoonup> string) option"
  fetch_log :: "fetch_call list"

definition TOKEN_STORAGE_KEY :: string where
  "TOKEN_STORAGE_KEY = ''aboi_admin_token''"

text \<open>Lines 1-5.\<close>

definition normaliseBaseUrl :: "string \<Rightarrow> string" where
  "normaliseBaseUrl u = (if u \<noteq> [] \<and> last u = CHR ''/'' then butlast u else u)"

definition API_BASE_URL :: "runtime \<Rightarrow> string" where
  "API_BASE_URL rt =
     normaliseBaseUrl (case VITE_API_BASE_URL rt of None \<Rightarrow> ''http://localhost:3001'' | Some u \<Rightarrow> u)"

text \<open>Lines 12-16: the state of the module once it is loaded.\<close>

definition module_init :: "(string \<rightharpoonup> string) option \<Rightarrow> client" where
  "module_init storage =
     \<lparr> accessToken =
         (case storage of
            None \<Rightarrow> JNull
          | Some items \<Rightarrow> (case items TOKEN_STORAGE_KEY of None \<Rightarrow> JNull | Some s \<Rightarrow> JStr s)),
       localStorage = storage,
       fetch_log = [] \<rparr>"

text \<open>The token the storage holds under the fixed key, if there is a storage.\<close>

definition stored_token :: "client \<Rightarrow> string option" where
  "stored_token w =
     (case localStorage w of None \<Rightarrow> None | Some items \<Rightarrow> items TOKEN_STORAGE_KEY)"

text \<open>\<open>persistToken\<close> (lines 18-30).\<close>

definition persistToken :: "runtime \<Rightarrow> js \<Rightarrow> client \<Rightarrow> client" where
  "persistToken rt token w =
     w\<lparr> accessToken := token,
        localStorage :=
          (case localStorage w of
             None \<Rightarrow> None
           | Some items \<Rightarrow>
               Some (if truthy token
                     then items(TOKEN_STORAGE_KEY \<mapsto> to_string rt token)
                     else items(TOKEN_STORAGE_KEY := None))) \<rparr>"

subsection \<open>request\<close>

text \<open>\<open>resolveUrl\<close> (lines 50-51).\<close>

definition resolveUrl :: "runtime \<Rightarrow> string \<Rightarrow> string" where
  "resolveUrl rt path = API_BASE_URL rt @ (if startsWith path ''/'' then path else ''/'' @ path)"

text \<open>Lines 66-79: the headers before authorisation, and the body handed to
  \<open>fetch\<close>. The values set here are constants that \<open>Headers.set\<close> accepts and
  leaves as they are.\<close>

fun prepare_body :: "runtime \<Rightarrow> body_value \<Rightarrow> (string \<rightharpoonup> string) \<times> BodyInit option" where
  "prepare_body rt (PlainValue JUndefined) =
     ([''Accept'' \<mapsto> ''application/json''], None)"
| "prepare_body rt (PlainValue JNull) =
     ([''Accept'' \<mapsto> ''application/json''], None)"
| "prepare_body rt (FormValue f) =
     ([''Accept'' \<mapsto> ''application/json''], Some (FormBody f))"
| "prepare_body rt (PlainValue (JStr s)) =
     ([''Accept'' \<mapsto> ''application/json'', ''Content-Type'' \<mapsto> ''application/json''],
      Some (TextBody s))"
| "prepare_body rt (PlainValue v) =
     ([''Accept'' \<mapsto> ''application/json'', ''Content-Type'' \<mapsto> ''application/json''],
      Some (TextBody (JSON_stringify rt v)))"

text \<open>Lines 91-100: the payload of a response.\<close>

definition read_payload :: "Response \<Rightarrow> thrown + js" where
  "read_payload response =
     (if status response \<noteq> 204 then
        (case content_type response of
           None \<Rightarrow> map_sum id JStr (text_body response)
         | Some contentType \<Rightarrow>
             if contentType \<noteq> [] \<and> str_includes contentType ''application/json''
             then json_body response
             else map_sum id JStr (text_body response))
      else Inr JNull)"

text \<open>Lines 103-112: the message of the error raised for a response that is not ok.\<close>

definition error_message :: "Response \<Rightarrow> js \<Rightarrow> string" where
  "error_message response payload =
     (let message = ''Request failed with status '' @ string_of_nat (status response) in
      if isRecord payload then
        (case (if isRecord (get_prop payload ''error'')
               then get_prop (get_prop payload ''error'') ''message'' else JUndefined) of
           JStr m \<Rightarrow> m
         | _ \<Rightarrow> (case get_prop payload ''message'' of JStr m \<Rightarrow> m | _ \<Rightarrow> message))
      else message)"

text \<open>
  \<open>Headers.set\<close> (line 82), as the Fetch standard defines it: the value is normalised
  first, which removes leading and trailing HTTP whitespace (tab, line feed, carriage
  return, space); a value that still contains a NUL, a line feed or a carriage return
  is refused with a \<open>TypeError\<close>. The three names the module sets are valid header
  names. A \<open>string\<close> here is a sequence of characters with codes below 256, one for
  each code unit of the JavaScript string: these are the strings \<open>Headers.set\<close> takes
  as a value (it refuses a code unit above 255 with a \<open>TypeError\<close>), and a JavaScript
  string with a higher code unit is not a value of this type.
\<close>

definition http_whitespace :: "char \<Rightarrow> bool" where
  "http_whitespace c = (c = CHR 0x09 \<or> c = CHR 0x0A \<or> c = CHR 0x0D \<or> c = CHR 0x20)"

definition forbidden_in_value :: "char \<Rightarrow> bool" where
  "forbidden_in_value c = (c = CHR 0x00 \<or> c = CHR 0x0A \<or> c = CHR 0x0D)"

definition normalize_value :: "string \<Rightarrow> string" where
  "normalize_value v = rev (dropWhile http_whitespace (rev (dropWhile http_whitespace v)))"

definition Headers_set ::
  "(string \<rightharpoonup> string) \<Rightarrow> string \<Rightarrow> string \<Rightarrow> thrown + (string \<rightharpoonup> string)" where
  "Headers_set hs name v =
     (if list_ex forbidden_in_value (normalize_value v) then Inl (NativeError ''TypeError'')
      else Inr (hs(name \<mapsto> normalize_value v)))"

text \<open>The call \<open>request\<close> hands to \<open>fetch\<close> (lines 60, 66-89), or the error of
  line 82 when the token does not make a header value.\<close>

definition build_call ::
  "runtime \<Rightarrow> string \<Rightarrow> RequestOptions \<Rightarrow> client \<Rightarrow> thrown + fetch_call" where
  "build_call rt path options w =
     (let http_method = (case opt_method options of None \<Rightarrow> ''GET'' | Some m \<Rightarrow> m);
          authenticated = (case opt_authenticated options of None \<Rightarrow> True | Some a \<Rightarrow> a);
          prepared = prepare_body rt (opt_body options)
      in case (if authenticated \<and> truthy (accessToken w)
               then Headers_set (fst prepared) ''Authorization''
                      (''Bearer '' @ to_string rt (accessToken w))
               else Inr (fst prepared)) of
           Inl e \<Rightarrow> Inl e
         | Inr hs \<Rightarrow>
             Inr \<lparr> url = resolveUrl rt path, http_method = http_method, headers = hs,
                   body = snd prepared \<rparr>)"

text \<open>\<open>request\<close> (lines 59-126): the result, and the state it leaves.\<close>

definition request ::
  "runtime \<Rightarrow> string \<Rightarrow> RequestOptions \<Rightarrow> client \<Rightarrow> (thrown + js) \<times> client" where
  "request rt path options w =
     (let authenticated = (case opt_authenticated options of None \<Rightarrow> True | Some a \<Rightarrow> a) in
      if authenticated \<and> \<not> truthy (accessToken w) then
        (Inl (ApiError ''Not authenticated'' (Some 401) JUndefined), w)
      else
        (case build_call rt path options w of
           Inl e \<Rightarrow> (Inl e, w)
         | Inr call \<Rightarrow>
            (let w1 = w\<lparr> fetch_log := fetch_log w @ [call] \<rparr>
             in case fetch rt (fetch_log w) call of
                  Inl e \<Rightarrow> (Inl e, w1)
                | Inr response \<Rightarrow>
                    (case read_payload response of
                       Inl e \<Rightarrow> (Inl e, w1)
                     | Inr payload \<Rightarrow>
                         if \<not> ok response then
                           (Inl (ApiError (error_message response payload)
                                   (Some (status response)) payload),
                            if status response = 401 \<or> status response = 403
                            then persistToken rt JNull w1 else w1)
                         else if isRecord payload \<and> has_key payload ''data''
                         then (Inr (get_prop payload ''data''), w1)
                         else (Inr payload, w1)))))"

text \<open>The options of a call that passes none: \<open>request(path)\<close>.\<close>

definition no_options :: RequestOptions where
  "no_options = \<lparr> opt_method = None, opt_body = PlainValue JUndefined, opt_authenticated = None \<rparr>"

text \<open>\<open>authenticated\<close> after the default of line 60 is applied.\<close>

definition wants_auth :: "RequestOptions \<Rightarrow> bool" where
  "wants_auth options = (case opt_authenticated options of None \<Rightarrow> True | Some a \<Rightarrow> a)"

subsection \<open>authApi\<close>

text \<open>\<open>authApi.login\<close> (lines 238-250). The result is returned as received.\<close>

definition login ::
  "runtime \<Rightarrow> string \<Rightarrow> string \<Rightarrow> client \<Rightarrow> (thrown + js) \<times> client" where
  "login rt email password w =
     (case request rt ''/auth/login''
             \<lparr> opt_method = Some ''POST'',
               opt_body = PlainValue (JObj [(''username'', JStr email), (''password'', JStr password)]),
               opt_authenticated = Some False \<rparr> w of
        (Inl e, w1) \<Rightarrow> (Inl e, w1)
      | (Inr result, w1) \<Rightarrow>
          (case read_member result ''token'' of
             Inl e \<Rightarrow> (Inl e, w1)
           | Inr token \<Rightarrow> (Inr result, persistToken rt token w1)))"

text \<open>\<open>authApi.me\<close> (lines 252-266). The read of \<open>result.user\<close> is inside the
  \<open>try\<close>, so what it throws goes through the \<open>catch\<close> as well.\<close>

definition me :: "runtime \<Rightarrow> client \<Rightarrow> (thrown + js) \<times> client" where
  "me rt w =
     (if \<not> truthy (accessToken w) then (Inr JNull, w)
      else
        (case (case request rt ''/auth/me'' no_options w of
                 (Inl e, w1) \<Rightarrow> (Inl e, w1)
               | (Inr result, w1) \<Rightarrow> (read_member result ''user'', w1)) of
           (Inr user, w1) \<Rightarrow> (Inr user, w1)
         | (Inl error, w1) \<Rightarrow>
             if is_ApiError_401 error then (Inr JNull, w1) else (Inl error, w1)))"

text \<open>\<open>authApi.logout\<close> (lines 268-284): the \<open>finally\<close> block runs on every path
  out of the \<open>try\<close>.\<close>

definition logout :: "runtime \<Rightarrow> client \<Rightarrow> (thrown + js) \<times> client" where
  "logout rt w =
     (if \<not> truthy (accessToken w) then (Inr JUndefined, w)
      else
        (case request rt ''/auth/logout''
                \<lparr> opt_method = Some ''POST'', opt_body = PlainValue JUndefined,
                  opt_authenticated = None \<rparr> w of
           (Inr result, w1) \<Rightarrow> (Inr JUndefined, persistToken rt JNull w1)
         | (Inl error, w1) \<Rightarrow>
             if \<not> is_ApiError_401 error then (Inl error, persistToken rt JNull w1)
             else (Inr JUndefined, persistToken rt JNull w1)))"

subsection \<open>currencyApi\<close>

fun Array_isArray :: "js \<Rightarrow> bool" where
  "Array_isArray (JArr xs) = True"
| "Array_isArray v = False"

fun elements :: "js \<Rightarrow> js list" where
  "elements (JArr xs) = xs"
| "elements v = []"

text \<open>\<open>Array.prototype.join\<close>: \<open>null\<close> and \<open>undefined\<close> elements print as the empty
  string.\<close>

fun join_item :: "runtime \<Rightarrow> js \<Rightarrow> string" where
  "join_item rt JUndefined = []"
| "join_item rt JNull = []"
| "join_item rt v = to_string rt v"

fun join_with :: "string \<Rightarrow> string list \<Rightarrow> string" where
  "join_with sep [] = []"
| "join_with sep [x] = x"
| "join_with sep (x # y # ys) = x @ sep @ join_with sep (y # ys)"

text \<open>\<open>a ?? b\<close>.\<close>

fun nullish :: "js \<Rightarrow> js \<Rightarrow> js" where
  "nullish JUndefined b = b"
| "nullish JNull b = b"
| "nullish a b = a"

text \<open>\<open>currencyApi.getRates\<close> (lines 370-384); \<open>base\<close> is \<open>None\<close> when the caller
  passes \<open>undefined\<close>.\<close>

definition getRates ::
  "runtime \<Rightarrow> string option \<Rightarrow> js \<Rightarrow> client \<Rightarrow> (thrown + js) \<times> client" where
  "getRates rt base symbols w =
     (if \<not> Array_isArray symbols \<or> length (elements symbols) = 0 then (Inr (JObj []), w)
      else
        (let params =
               [(''base'', case base of None \<Rightarrow> ''USD'' | Some b \<Rightarrow> b),
                (''symbols'', join_with '','' (map (join_item rt) (elements symbols)))]
         in case request rt (''/currency/rates?'' @ URLSearchParams_toString rt params)
                   \<lparr> opt_method = None, opt_body = PlainValue JUndefined,
                     opt_authenticated = Some False \<rparr> w of
              (Inl e, w1) \<Rightarrow> (Inl e, w1)
            | (Inr response, w1) \<Rightarrow>
                (case read_member response ''rates'' of
                   Inl e \<Rightarrow> (Inl e, w1)
                 | Inr rates \<Rightarrow> (Inr (nullish rates (JObj [])), w1))))"

subsection \<open>The contract in the words of the specification\<close>

text \<open>The string at \<open>error.message\<close> of a payload, if the payload is an object whose
  \<open>error\<close> is an object with a string there.\<close>

definition payload_error_message :: "js \<Rightarrow> string option" where
  "payload_error_message payload =
     (case payload of
        JObj kvs \<Rightarrow>
          (case map_of kvs ''error'' of
             Some (JObj evs) \<Rightarrow>
               (case map_of evs ''message'' of Some (JStr m) \<Rightarrow> Some m | _ \<Rightarrow> None)
           | _ \<Rightarrow> None)
      | _ \<Rightarrow> None)"

text \<open>The string at \<open>message\<close> of a payload, if there is one.\<close>

definition payload_message :: "js \<Rightarrow> string option" where
  "payload_message payload =
     (case payload of
        JObj kvs \<Rightarrow> (case map_of kvs ''message'' of Some (JStr m) \<Rightarrow> Some m | _ \<Rightarrow> None)
      | _ \<Rightarrow> None)"

text \<open>The message by precedence: \<open>error.message\<close>, else \<open>message\<close>, else the
  generic string with the status code.\<close>

definition spec_error_message :: "nat \<Rightarrow> js \<Rightarrow> string" where
  "spec_error_message st payload =
     (case payload_error_message payload of
        Some m \<Rightarrow> m
      | None \<Rightarrow>
          (case payload_message payload of
             Some m \<Rightarrow> m
           | None \<Rightarrow> ''Request failed with status '' @ string_of_nat st))"

text \<open>An object with a \<open>data\<close> field yields that field; anything else is returned
  as it is.\<close>

definition spec_unwrap :: "js \<Rightarrow> js" where
  "spec_unwrap payload =
     (case payload of
        JObj kvs \<Rightarrow> (case map_of kvs ''data'' of Some v \<Rightarrow> v | None \<Rightarrow> payload)
      | _ \<Rightarrow> payload)"

text \<open>What a request yields once the payload of its response is known (section 4.1,
  success and failure): the unwrapped payload for a status in 200-299; otherwise the
  error with the message, the status and the payload, the token being cleared first when
  the status is 401 or 403.\<close>

definition spec_outcome :: "runtime \<Rightarrow> Response \<Rightarrow> js \<Rightarrow> client \<Rightarrow> (thrown + js) \<times> client" where
  "spec_outcome rt response payload w1 =
     (if 200 \<le> status response \<and> status response \<le> 299 then (Inr (spec_unwrap payload), w1)
      else (Inl (ApiError (spec_error_message (status response) payload)
                   (Some (status response)) payload),
            if status response = 401 \<or> status response = 403
            then w1\<lparr> accessToken := JNull,
                     localStorage := map_option (\<lambda>items. items(TOKEN_STORAGE_KEY := None))
                                       (localStorage w1) \<rparr>
            else w1))"

section \<open>Examples to run the definitions on\<close>

definition example_runtime ::
  "(fetch_call list \<Rightarrow> fetch_call \<Rightarrow> thrown + Response) \<Rightarrow> runtime" where
  "example_runtime server =
     \<lparr> VITE_API_BASE_URL = Some ''https://api.example.test/'',
       JSON_stringify = (\<lambda>v. case v of JNum n \<Rightarrow> ''7'' | _ \<Rightarrow> ''{}''),
       ToString = (\<lambda>v. ''[object Object]''),
       URLSearchParams_toString = (\<lambda>ps. concat (map (\<lambda>(k, v). k @ ''='' @ v @ ''&'') ps)),
       fetch = server \<rparr>"

text \<open>A service that is down: every \<open>fetch\<close> rejects.\<close>

definition unreachable :: "fetch_call list \<Rightarrow> fetch_call \<Rightarrow> thrown + Response" where
  "unreachable calls c = Inl (NativeError ''TypeError'')"

text \<open>A service that gives the same answer to every call.\<close>

definition replying :: "Response \<Rightarrow> fetch_call list \<Rightarrow> fetch_call \<Rightarrow> thrown + Response" where
  "replying r calls c = Inr r"

definition json_response :: "nat \<Rightarrow> js \<Rightarrow> Response" where
  "json_response st p =
     \<lparr> status = st, content_type = Some ''application/json; charset=utf-8'',
       json_body = Inr p, text_body = Inr ''(json text)'' \<rparr>"

definition text_response :: "nat \<Rightarrow> string \<Rightarrow> Response" where
  "text_response st t =
     \<lparr> status = st, content_type = Some ''text/plain'',
       json_body = Inl (NativeError ''SyntaxError''), text_body = Inr t \<rparr>"

text \<open>A response that announces JSON and carries a body that does not parse.\<close>

definition malformed_response :: "nat \<Rightarrow> Response" where
  "malformed_response st =
     \<lparr> status = st, content_type = Some ''application/json'',
       json_body = Inl (NativeError ''SyntaxError''), text_body = Inr [] \<rparr>"

text \<open>A client in a browser that holds the token \<open>t\<close>, also in the storage.\<close>

definition signed_in :: "string \<Rightarrow> client" where
  "signed_in t = module_init (Some [TOKEN_STORAGE_KEY \<mapsto> t])"

text \<open>What the service answers to a login that it accepts, with the token \<open>t\<close>.\<close>

definition login_reply :: "string \<Rightarrow> js" where
  "login_reply t =
     JObj [(''data'', JObj [(''token'', JStr t), (''user'', JObj [(''id'', JStr ''u1'')])])]"

section \<open>Properties\<close>

subsection \<open>Auxiliary facts\<close>

lemmas example_defs =
  example_runtime_def replying_def unreachable_def json_response_def text_response_def
  malformed_response_def signed_in_def module_init_def no_options_def

lemmas request_defs =
  request_def build_call_def read_payload_def resolveUrl_def API_BASE_URL_def
  normaliseBaseUrl_def ok_def persistToken_def stored_token_def wants_auth_def
  Headers_set_def normalize_value_def http_whitespace_def forbidden_in_value_def

lemma digit_char_simps [simp]:
  "digit_char 0 = CHR ''0''" "digit_char 1 = CHR ''1''" "digit_char 2 = CHR ''2''"
  "digit_char 3 = CHR ''3''" "digit_char 4 = CHR ''4''" "digit_char 5 = CHR ''5''"
  "digit_char 6 = CHR ''6''" "digit_char 7 = CHR ''7''" "digit_char 8 = CHR ''8''"
  "digit_char 9 = CHR ''9''" "digit_char (Suc 0) = CHR ''1''"
  by code_simp+

lemma string_of_nat_small [simp]:
  "string_of_nat 0 = ''0''" "string_of_nat 1 = ''1''" "string_of_nat (Suc 0) = ''1''"
  by (simp_all add: string_of_nat.simps)

lemma string_of_nat_numeral [simp]:
  "string_of_nat (numeral k) =
     (if numeral k < (10::nat) then [digit_char (numeral k)]
      else string_of_nat (numeral k div 10) @ [digit_char (numeral k mod 10)])"
  by (rule string_of_nat.simps)

lemma persistToken_null:
  "accessToken (persistToken rt JNull w) = JNull"
  "stored_token (persistToken rt JNull w) = None"
  "fetch_log (persistToken rt JNull w) = fetch_log w"
  by (simp_all add: persistToken_def stored_token_def split: option.splits)

text \<open>\<open>str_includes\<close> is the substring test.\<close>

lemma startsWith_iff: "startsWith s sub \<longleftrightarrow> (\<exists>q. s = sub @ q)"
  by (induction s sub rule: startsWith.induct) auto

lemma str_includes_iff: "str_includes s sub \<longleftrightarrow> (\<exists>p q. s = p @ sub @ q)"
proof (induction s)
  case Nil
  then show ?case by auto
next
  case (Cons x xs)
  have "(\<exists>p q. x # xs = p @ sub @ q)
          \<longleftrightarrow> (\<exists>q. x # xs = sub @ q) \<or> (\<exists>p q. xs = p @ sub @ q)"
  proof
    assume "\<exists>p q. x # xs = p @ sub @ q"
    then obtain p q where e: "x # xs = p @ sub @ q" by blast
    show "(\<exists>q. x # xs = sub @ q) \<or> (\<exists>p q. xs = p @ sub @ q)"
    proof (cases p)
      case Nil
      with e show ?thesis by auto
    next
      case (Cons y ys)
      with e have "xs = ys @ sub @ q" by simp
      then show ?thesis by blast
    qed
  next
    assume "(\<exists>q. x # xs = sub @ q) \<or> (\<exists>p q. xs = p @ sub @ q)"
    then show "\<exists>p q. x # xs = p @ sub @ q"
    proof
      assume "\<exists>q. x # xs = sub @ q"
      then obtain q where "x # xs = [] @ sub @ q" by auto
      then show ?thesis by blast
    next
      assume "\<exists>p q. xs = p @ sub @ q"
      then obtain p q where "x # xs = (x # p) @ sub @ q" by auto
      then show ?thesis by blast
    qed
  qed
  with Cons show ?case by (simp add: startsWith_iff)
qed

lemma get_prop_absent: "\<not> has_key v k \<Longrightarrow> get_prop v k = JUndefined"
  by (cases v) (auto simp: map_of_eq_None_iff [symmetric] split: option.splits)

text \<open>Lines 121-125 and lines 103-112 against the contract in the specification's
  words.\<close>

lemma unwrap_spec:
  "(if isRecord payload \<and> has_key payload ''data'' then get_prop payload ''data'' else payload)
     = spec_unwrap payload"
  by (cases payload) (auto simp: spec_unwrap_def map_of_eq_None_iff [symmetric] split: option.splits)

lemma error_message_spec:
  "error_message response payload = spec_error_message (status response) payload"
  by (cases payload)
     (auto simp: error_message_def spec_error_message_def payload_error_message_def
        payload_message_def Let_def split: option.splits js.splits)


lemma persistToken_null_eq:
  "persistToken rt JNull w
     = w\<lparr> accessToken := JNull,
           localStorage := map_option (\<lambda>items. items(TOKEN_STORAGE_KEY := None)) (localStorage w) \<rparr>"
  by (cases "localStorage w") (simp_all add: persistToken_def)

text \<open>The constant header values of lines 66-76 pass \<open>Headers.set\<close> unchanged.\<close>

lemma Headers_set_constants:
  "Headers_set hs ''Accept'' ''application/json'' = Inr (hs(''Accept'' \<mapsto> ''application/json''))"
  "Headers_set hs ''Content-Type'' ''application/json''
     = Inr (hs(''Content-Type'' \<mapsto> ''application/json''))"
  by (simp_all add: Headers_set_def normalize_value_def http_whitespace_def forbidden_in_value_def)

text \<open>A token without NUL, line feed or carriage return that does not end in a space or
  a tab makes a header value that is set as it is.\<close>

lemma normalize_bearer:
  assumes "t \<noteq> []" and "\<not> http_whitespace (last t)"
  shows "normalize_value (''Bearer '' @ t) = ''Bearer '' @ t"
proof -
  have "dropWhile http_whitespace (''Bearer '' @ t) = ''Bearer '' @ t"
    by (simp add: http_whitespace_def)
  moreover have "dropWhile http_whitespace (rev (''Bearer '' @ t)) = rev (''Bearer '' @ t)"
  proof -
    from assms(1) obtain ys y where t: "t = ys @ [y]"
      by (metis append_butlast_last_id)
    with assms(2) have "\<not> http_whitespace y" by simp
    with t show ?thesis by simp
  qed
  ultimately show ?thesis
    by (simp only: normalize_value_def rev_rev_ident)
qed

lemma Headers_set_bearer:
  assumes "t \<noteq> []" and "\<not> http_whitespace (last t)" and "\<not> list_ex forbidden_in_value t"
  shows "Headers_set hs ''Authorization'' (''Bearer '' @ t)
           = Inr (hs(''Authorization'' \<mapsto> ''Bearer '' @ t))"
proof -
  have "\<not> list_ex forbidden_in_value (''Bearer '' @ t)"
    using assms(3) by (simp add: forbidden_in_value_def list_ex_iff)
  then show ?thesis
    unfolding Headers_set_def normalize_bearer [OF assms(1,2)] by (simp only: if_False)
qed

text \<open>Only \<open>Headers.set\<close> on the token can keep \<open>request\<close> from building its call.\<close>

lemma build_call_unauthenticated:
  assumes "\<not> (wants_auth options \<and> truthy (accessToken w))"
  shows "\<exists>call. build_call rt path options w = Inr call"
  using assms by (auto simp: build_call_def wants_auth_def Let_def)

lemma build_call_error:
  assumes "build_call rt path options w = Inl e"
  shows "e = NativeError ''TypeError'' \<and> wants_auth options \<and> truthy (accessToken w)
         \<and> list_ex forbidden_in_value
              (normalize_value (''Bearer '' @ to_string rt (accessToken w)))"
  using assms
  by (auto simp: build_call_def wants_auth_def Let_def Headers_set_def split: if_splits sum.splits)

lemma request_reaches_fetch:
  assumes "\<not> (wants_auth options \<and> \<not> truthy (accessToken w))"
    and "build_call rt path options w = Inr call"
  shows "fetch_log (snd (request rt path options w)) = fetch_log w @ [call]"
  using assms
  by (auto simp: request_def wants_auth_def Let_def persistToken_null
        split: sum.splits option.splits)

text \<open>\<open>request\<close> once \<open>fetch\<close> has resolved.\<close>

lemma request_after_reply:
  assumes "\<not> (wants_auth options \<and> \<not> truthy (accessToken w))"
    and "build_call rt path options w = Inr call"
    and "fetch rt (fetch_log w) call = Inr response"
  shows "request rt path options w
           = (case read_payload response of
                Inl e \<Rightarrow> (Inl e, w\<lparr> fetch_log := fetch_log w @ [call] \<rparr>)
              | Inr payload \<Rightarrow>
                  spec_outcome rt response payload (w\<lparr> fetch_log := fetch_log w @ [call] \<rparr>))"
proof (cases "read_payload response")
  case (Inl e)
  with assms show ?thesis
    by (auto simp: request_def wants_auth_def Let_def)
next
  case (Inr payload)
  with assms unwrap_spec [of payload] show ?thesis
    by (auto simp: request_def wants_auth_def Let_def spec_outcome_def ok_def
          persistToken_null_eq error_message_spec)
qed

lemma request_success_state:
  assumes "request rt path options w = (Inr r, w1)"
  shows "\<exists>call. build_call rt path options w = Inr call
           \<and> w1 = w\<lparr> fetch_log := fetch_log w @ [call] \<rparr>"
  using assms
  by (auto simp: request_def Let_def split: if_splits sum.splits)

text \<open>A request leaves the token as it was unless it fails with an \<open>ApiError\<close> of
  status 401 or 403.\<close>

lemma request_keeps_token:
  "accessToken (snd (request rt path options w)) = accessToken w
   \<or> (\<exists>m st d. fst (request rt path options w) = Inl (ApiError m (Some st) d)
         \<and> (st = 401 \<or> st = 403))"
  by (auto simp: request_def Let_def persistToken_def split: sum.splits)

subsection \<open>request\<close>

text \<open>
  C1. A call to \<open>request\<close> with \<open>authenticated\<close> true (given, or by default) while no
  token is held fails with the error of status 401 and message \<open>Not authenticated\<close>,
  and leaves the state as it was: no call to \<open>fetch\<close> is made.
\<close>

theorem request_not_authenticated:
  assumes "wants_auth options" and "\<not> truthy (accessToken w)"
  shows "request rt path options w =
           (Inl (ApiError ''Not authenticated'' (Some 401) JUndefined), w)
         \<and> fetch_log (snd (request rt path options w)) = fetch_log w"
  using assms by (simp add: request_def wants_auth_def)

theorem request_not_authenticated_witness:
  "wants_auth no_options
   \<and> \<not> truthy (accessToken (module_init (Some Map.empty)))
   \<and> request (example_runtime unreachable) ''/admin/commodities'' no_options
       (module_init (Some Map.empty))
     = (Inl (ApiError ''Not authenticated'' (Some 401) JUndefined),
        module_init (Some Map.empty))
   \<and> fetch_log (snd (request (example_runtime unreachable) ''/admin/commodities'' no_options
       (module_init (Some Map.empty)))) = []"
proof -
  have a: "wants_auth no_options"
    by (simp add: wants_auth_def no_options_def)
  have b: "\<not> truthy (accessToken (module_init (Some Map.empty)))"
    by (simp add: module_init_def)
  have c: "fetch_log (module_init (Some Map.empty)) = []"
    by (simp add: module_init_def)
  show ?thesis
    using a b c request_not_authenticated [OF a b, of "example_runtime unreachable" "''/admin/commodities''"]
    by simp
qed

text \<open>
  C2 (as amended). When the response to a request has status 401 or 403 and its payload
  is read without error, the state that the raised error leaves has no token: the
  variable is \<open>null\<close> and the storage holds nothing under the fixed key. Every
  authenticated call made in that state fails with the client-side error
  \<open>Not authenticated\<close> of status 401.
\<close>

theorem request_rejected_clears_token:
  assumes "\<not> (wants_auth options \<and> \<not> truthy (accessToken w))"
    and "build_call rt path options w = Inr call"
    and "fetch rt (fetch_log w) call = Inr response"
    and "status response = 401 \<or> status response = 403"
    and "read_payload response = Inr payload"
  shows "fst (request rt path options w)
           = Inl (ApiError (error_message response payload) (Some (status response)) payload)
         \<and> accessToken (snd (request rt path options w)) = JNull
         \<and> stored_token (snd (request rt path options w)) = None
         \<and> (\<forall>path' options'. wants_auth options' \<longrightarrow>
               request rt path' options' (snd (request rt path options w))
                 = (Inl (ApiError ''Not authenticated'' (Some 401) JUndefined),
                    snd (request rt path options w)))"
proof -
  let ?w1 = "w\<lparr> fetch_log := fetch_log w @ [call] \<rparr>"
  have nok: "\<not> ok response" using assms(4) by (auto simp: ok_def)
  have r: "request rt path options w
      = (Inl (ApiError (error_message response payload) (Some (status response)) payload),
         persistToken rt JNull ?w1)"
    using assms nok by (auto simp: request_def wants_auth_def Let_def)
  show ?thesis
    unfolding r by (simp add: persistToken_null request_def wants_auth_def)
qed

text \<open>
  C2 as stated fails: a response of status 401 that announces JSON and whose body
  does not parse makes \<open>response.json()\<close> reject before the status is looked at
  (line 96 is before line 114); the token stays, in the variable and in the storage.
\<close>

theorem unreadable_401_keeps_token:
  "build_call (example_runtime (replying (malformed_response 401))) ''/admin/commodities''
        no_options (signed_in ''abc'')
     = Inr \<lparr> url = ''https://api.example.test/admin/commodities'', http_method = ''GET'',
             headers = [''Accept'' \<mapsto> ''application/json'', ''Authorization'' \<mapsto> ''Bearer abc''],
             body = None \<rparr>
   \<and> fetch (example_runtime (replying (malformed_response 401))) (fetch_log (signed_in ''abc''))
       \<lparr> url = ''https://api.example.test/admin/commodities'', http_method = ''GET'',
         headers = [''Accept'' \<mapsto> ''application/json'', ''Authorization'' \<mapsto> ''Bearer abc''],
         body = None \<rparr>
     = Inr (malformed_response 401)
   \<and> status (malformed_response 401) = 401
   \<and> fst (request (example_runtime (replying (malformed_response 401))) ''/admin/commodities''
        no_options (signed_in ''abc'')) = Inl (NativeError ''SyntaxError'')
   \<and> accessToken (snd (request (example_runtime (replying (malformed_response 401)))
        ''/admin/commodities'' no_options (signed_in ''abc''))) = JStr ''abc''
   \<and> stored_token (snd (request (example_runtime (replying (malformed_response 401)))
        ''/admin/commodities'' no_options (signed_in ''abc''))) = Some ''abc''"
  by (simp add: example_defs request_defs TOKEN_STORAGE_KEY_def)

text \<open>The amended C2 at a response of status 403, followed by an authenticated
  call.\<close>

theorem request_rejected_clears_token_witness:
  "\<not> (wants_auth no_options \<and> \<not> truthy (accessToken (signed_in ''abc'')))
   \<and> status (json_response 403 (JObj [(''message'', JStr ''expired'')])) = 403
   \<and> request (example_runtime (replying (json_response 403 (JObj [(''message'', JStr ''expired'')]))))
       ''/admin/commodities'' no_options (signed_in ''abc'')
     = (Inl (ApiError ''expired'' (Some 403) (JObj [(''message'', JStr ''expired'')])),
        \<lparr> accessToken = JNull, localStorage = Some Map.empty,
          fetch_log =
            [\<lparr> url = ''https://api.example.test/admin/commodities'', http_method = ''GET'',
                headers = [''Accept'' \<mapsto> ''application/json'', ''Authorization'' \<mapsto> ''Bearer abc''],
                body = None \<rparr>] \<rparr>)
   \<and> request (example_runtime (replying (json_response 403 (JObj [(''message'', JStr ''expired'')]))))
       ''/auth/me'' no_options
       (snd (request (example_runtime (replying (json_response 403 (JObj [(''message'', JStr ''expired'')]))))
          ''/admin/commodities'' no_options (signed_in ''abc'')))
     = (Inl (ApiError ''Not authenticated'' (Some 401) JUndefined),
        snd (request (example_runtime (replying (json_response 403 (JObj [(''message'', JStr ''expired'')]))))
          ''/admin/commodities'' no_options (signed_in ''abc'')))"
proof -
  let ?p = "JObj [(''message'', JStr ''expired'')]"
  let ?rt = "example_runtime (replying (json_response 403 ?p))"
  let ?c = "\<lparr> url = ''https://api.example.test/admin/commodities'', http_method = ''GET'',
                headers = [''Accept'' \<mapsto> ''application/json'', ''Authorization'' \<mapsto> ''Bearer abc''],
                body = None \<rparr>"
  have a: "\<not> (wants_auth no_options \<and> \<not> truthy (accessToken (signed_in ''abc'')))"
    by (simp add: example_defs)
  have k: "build_call ?rt ''/admin/commodities'' no_options (signed_in ''abc'') = Inr ?c"
    by (simp add: example_defs request_defs TOKEN_STORAGE_KEY_def)
  have b: "fetch ?rt (fetch_log (signed_in ''abc'')) ?c = Inr (json_response 403 ?p)"
    by (simp add: example_defs)
  have c: "status (json_response 403 ?p) = 401 \<or> status (json_response 403 ?p) = 403"
    by (simp add: example_defs)
  have d: "read_payload (json_response 403 ?p) = Inr ?p"
    by (simp add: example_defs read_payload_def)
  have e: "wants_auth no_options"
    by (simp add: example_defs wants_auth_def)
  have f: "error_message (json_response 403 ?p) ?p = ''expired''"
    by (simp add: error_message_def)
  have g: "snd (request ?rt ''/admin/commodities'' no_options (signed_in ''abc''))
      = \<lparr> accessToken = JNull, localStorage = Some Map.empty, fetch_log = [?c] \<rparr>"
    by (simp add: example_defs request_defs TOKEN_STORAGE_KEY_def)
  have h: "status (json_response 403 ?p) = 403"
    by (simp add: example_defs)
  from request_rejected_clears_token [OF a k b c d] e f g a h show ?thesis
    by (simp add: prod_eq_iff)
qed

text \<open>
  C3. When the response to a request is successful (2xx) and its payload is read as
  \<open>payload\<close> (for a body announced as JSON, the parsed value), the request returns
  the value at \<open>data\<close> if \<open>payload\<close> is an object with a \<open>data\<close> key, and
  \<open>payload\<close> unchanged otherwise. The token is not touched.
\<close>

theorem request_unwraps_data:
  assumes "\<not> (wants_auth options \<and> \<not> truthy (accessToken w))"
    and "build_call rt path options w = Inr call"
    and "fetch rt (fetch_log w) call = Inr response"
    and "ok response"
    and "read_payload response = Inr payload"
  shows "request rt path options w
           = (Inr (spec_unwrap payload), w\<lparr> fetch_log := fetch_log w @ [call] \<rparr>)"
  using assms unwrap_spec [of payload]
  by (auto simp: request_def wants_auth_def Let_def)

text \<open>C3 at an object whose \<open>data\<close> is \<open>[1, 2]\<close> and at an object without \<open>data\<close>.\<close>

theorem request_unwraps_data_witness:
  "fst (request (example_runtime (replying (json_response 200
          (JObj [(''data'', JArr [JNum 1, JNum 2])])))) ''/commodities/categories''
        (no_options \<lparr> opt_authenticated := Some False \<rparr>) (module_init None))
     = Inr (JArr [JNum 1, JNum 2])
   \<and> fst (request (example_runtime (replying (json_response 201
          (JObj [(''id'', JStr ''c1'')])))) ''/commodities/categories''
        (no_options \<lparr> opt_authenticated := Some False \<rparr>) (module_init None))
     = Inr (JObj [(''id'', JStr ''c1'')])"
proof -
  let ?o = "no_options \<lparr> opt_authenticated := Some False \<rparr>"
  let ?p = "JObj [(''data'', JArr [JNum 1, JNum 2])]"
  let ?q = "JObj [(''id'', JStr ''c1'')]"
  let ?c = "\<lparr> url = ''https://api.example.test/commodities/categories'', http_method = ''GET'',
             headers = [''Accept'' \<mapsto> ''application/json''], body = None \<rparr>"
  have a: "\<not> (wants_auth ?o \<and> \<not> truthy (accessToken (module_init None)))"
    by (simp add: example_defs wants_auth_def)
  have k: "build_call (example_runtime (replying r)) ''/commodities/categories'' ?o (module_init None)
      = Inr ?c" for r
    by (simp add: example_defs request_defs)
  have b: "fetch (example_runtime (replying r)) (fetch_log (module_init None)) ?c = Inr r" for r
    by (simp add: example_defs)
  have c: "ok (json_response 200 ?p)" "ok (json_response 201 ?q)"
    by (simp_all add: example_defs ok_def)
  have d: "read_payload (json_response 200 ?p) = Inr ?p" "read_payload (json_response 201 ?q) = Inr ?q"
    by (simp_all add: example_defs read_payload_def)
  from request_unwraps_data [OF a k b c(1) d(1)] request_unwraps_data [OF a k b c(2) d(2)]
  show ?thesis
    by (simp add: spec_unwrap_def)
qed

text \<open>
  C4 (as amended). When the response to a request has a status outside 200-299 and
  its payload is read without error, the request raises an \<open>ApiError\<close> with that
  status, the payload as details, and the message by precedence: the string at
  \<open>error.message\<close>, else the string at \<open>message\<close>, else
  \<open>Request failed with status N\<close>.
\<close>

theorem request_failure_error:
  assumes "\<not> (wants_auth options \<and> \<not> truthy (accessToken w))"
    and "build_call rt path options w = Inr call"
    and "fetch rt (fetch_log w) call = Inr response"
    and "\<not> ok response"
    and "read_payload response = Inr payload"
  shows "fst (request rt path options w)
           = Inl (ApiError (spec_error_message (status response) payload)
                    (Some (status response)) payload)"
  using assms error_message_spec [of response payload]
  by (auto simp: request_def wants_auth_def Let_def)

text \<open>
  C4 as stated fails: for a response of status 500 that announces JSON and whose body
  does not parse, what is raised is the rejection of \<open>response.json()\<close>, which is no
  \<open>ApiError\<close> and carries no status.
\<close>

theorem unreadable_500_is_not_api_error:
  "build_call (example_runtime (replying (malformed_response 500))) ''/prices/current''
        (no_options \<lparr> opt_authenticated := Some False \<rparr>) (module_init None)
     = Inr \<lparr> url = ''https://api.example.test/prices/current'', http_method = ''GET'',
             headers = [''Accept'' \<mapsto> ''application/json''], body = None \<rparr>
   \<and> fetch (example_runtime (replying (malformed_response 500))) (fetch_log (module_init None))
       \<lparr> url = ''https://api.example.test/prices/current'', http_method = ''GET'',
         headers = [''Accept'' \<mapsto> ''application/json''], body = None \<rparr>
     = Inr (malformed_response 500)
   \<and> \<not> ok (malformed_response 500)
   \<and> fst (request (example_runtime (replying (malformed_response 500))) ''/prices/current''
        (no_options \<lparr> opt_authenticated := Some False \<rparr>) (module_init None))
     = Inl (NativeError ''SyntaxError'')"
  by (simp add: example_defs request_defs)

text \<open>The amended C4 at the three sources of the message.\<close>

theorem request_failure_error_witness:
  "fst (request (example_runtime (replying (json_response 422
          (JObj [(''error'', JObj [(''message'', JStr ''bad input'')]),
                 (''message'', JStr ''outer'')]))))
        ''/prices/current'' (no_options \<lparr> opt_authenticated := Some False \<rparr>) (module_init None))
     = Inl (ApiError ''bad input'' (Some 422)
          (JObj [(''error'', JObj [(''message'', JStr ''bad input'')]),
                 (''message'', JStr ''outer'')]))
   \<and> fst (request (example_runtime (replying (json_response 409 (JObj [(''message'', JStr ''outer'')]))))
        ''/prices/current'' (no_options \<lparr> opt_authenticated := Some False \<rparr>) (module_init None))
     = Inl (ApiError ''outer'' (Some 409) (JObj [(''message'', JStr ''outer'')]))
   \<and> fst (request (example_runtime (replying (text_response 502 ''Bad Gateway'')))
        ''/prices/current'' (no_options \<lparr> opt_authenticated := Some False \<rparr>) (module_init None))
     = Inl (ApiError ''Request failed with status 502'' (Some 502) (JStr ''Bad Gateway''))"
proof -
  let ?o = "no_options \<lparr> opt_authenticated := Some False \<rparr>"
  let ?p = "JObj [(''error'', JObj [(''message'', JStr ''bad input'')]), (''message'', JStr ''outer'')]"
  let ?q = "JObj [(''message'', JStr ''outer'')]"
  let ?c = "\<lparr> url = ''https://api.example.test/prices/current'', http_method = ''GET'',
             headers = [''Accept'' \<mapsto> ''application/json''], body = None \<rparr>"
  have a: "\<not> (wants_auth ?o \<and> \<not> truthy (accessToken (module_init None)))"
    by (simp add: example_defs wants_auth_def)
  have k: "build_call (example_runtime (replying r)) ''/prices/current'' ?o (module_init None)
      = Inr ?c" for r
    by (simp add: example_defs request_defs)
  have b: "fetch (example_runtime (replying r)) (fetch_log (module_init None)) ?c = Inr r" for r
    by (simp add: example_defs)
  have c: "\<not> ok (json_response 422 ?p)" "\<not> ok (json_response 409 ?q)"
      "\<not> ok (text_response 502 ''Bad Gateway'')"
    by (simp_all add: example_defs ok_def)
  have d: "read_payload (json_response 422 ?p) = Inr ?p"
      "read_payload (json_response 409 ?q) = Inr ?q"
      "read_payload (text_response 502 ''Bad Gateway'') = Inr (JStr ''Bad Gateway'')"
    by (simp_all add: example_defs read_payload_def)
  have e: "string_of_nat 502 = ''502''"
    by simp
  from request_failure_error [OF a k b c(1) d(1)] request_failure_error [OF a k b c(2) d(2)]
    request_failure_error [OF a k b c(3) d(3)] e
  show ?thesis
    by (simp add: spec_error_message_def payload_error_message_def payload_message_def example_defs)
qed

text \<open>
  C6. Every call that \<open>request\<close> hands to \<open>fetch\<close> has the header
  \<open>Accept: application/json\<close>. A \<open>FormData\<close> body is passed on as it is, with no
  \<open>Content-Type\<close> header; a string body is sent as it is and any other body (not
  \<open>undefined\<close>, not \<open>null\<close>) is sent as its \<open>JSON.stringify\<close>, both with
  \<open>Content-Type: application/json\<close>. A request that passes the token precondition hands
  exactly this call to \<open>fetch\<close>, unless \<open>Headers.set\<close> refuses the held token as a
  header value: then the request raises that \<open>TypeError\<close> without a call to \<open>fetch\<close>.
\<close>

theorem request_headers_and_body:
  "(\<forall>call. build_call rt path options w = Inr call \<longrightarrow>
       headers call ''Accept'' = Some ''application/json''
     \<and> (\<forall>f. opt_body options = FormValue f \<longrightarrow>
           body call = Some (FormBody f) \<and> headers call ''Content-Type'' = None)
     \<and> (\<forall>s. opt_body options = PlainValue (JStr s) \<longrightarrow>
           body call = Some (TextBody s)
           \<and> headers call ''Content-Type'' = Some ''application/json'')
     \<and> (\<forall>v. opt_body options = PlainValue v \<and> v \<noteq> JUndefined \<and> v \<noteq> JNull
              \<and> (\<forall>s. v \<noteq> JStr s) \<longrightarrow>
           body call = Some (TextBody (JSON_stringify rt v))
           \<and> headers call ''Content-Type'' = Some ''application/json'')
     \<and> (\<not> (wants_auth options \<and> \<not> truthy (accessToken w)) \<longrightarrow>
           fetch_log (snd (request rt path options w)) = fetch_log w @ [call]))
   \<and> (\<forall>e. build_call rt path options w = Inl e \<longrightarrow>
         e = NativeError ''TypeError'' \<and> wants_auth options \<and> truthy (accessToken w)
         \<and> list_ex forbidden_in_value
              (normalize_value (''Bearer '' @ to_string rt (accessToken w)))
         \<and> request rt path options w = (Inl e, w))
   \<and> (fetch_log (snd (request rt path options w)) = fetch_log w
        \<or> (\<exists>call. build_call rt path options w = Inr call
              \<and> fetch_log (snd (request rt path options w)) = fetch_log w @ [call]))"
proof -
  have accept: "fst (prepare_body rt b) ''Accept'' = Some ''application/json''" for b
    by (cases "(rt, b)" rule: prepare_body.cases) auto
  have other: "prepare_body rt (PlainValue v)
        = ([''Accept'' \<mapsto> ''application/json'', ''Content-Type'' \<mapsto> ''application/json''],
           Some (TextBody (JSON_stringify rt v)))"
    if "v \<noteq> JUndefined" "v \<noteq> JNull" "\<forall>s. v \<noteq> JStr s" for v
    using that by (cases v) auto
  have built: "headers call ''Accept'' = fst (prepare_body rt (opt_body options)) ''Accept''
      \<and> headers call ''Content-Type'' = fst (prepare_body rt (opt_body options)) ''Content-Type''
      \<and> body call = snd (prepare_body rt (opt_body options))"
    if "build_call rt path options w = Inr call" for call
    using that
    by (auto simp: build_call_def Let_def Headers_set_def split: if_splits sum.splits)
  have p1: "headers call ''Accept'' = Some ''application/json''
     \<and> (\<forall>f. opt_body options = FormValue f \<longrightarrow>
           body call = Some (FormBody f) \<and> headers call ''Content-Type'' = None)
     \<and> (\<forall>s. opt_body options = PlainValue (JStr s) \<longrightarrow>
           body call = Some (TextBody s)
           \<and> headers call ''Content-Type'' = Some ''application/json'')
     \<and> (\<forall>v. opt_body options = PlainValue v \<and> v \<noteq> JUndefined \<and> v \<noteq> JNull
              \<and> (\<forall>s. v \<noteq> JStr s) \<longrightarrow>
           body call = Some (TextBody (JSON_stringify rt v))
           \<and> headers call ''Content-Type'' = Some ''application/json'')
     \<and> (\<not> (wants_auth options \<and> \<not> truthy (accessToken w)) \<longrightarrow>
           fetch_log (snd (request rt path options w)) = fetch_log w @ [call])"
    if b: "build_call rt path options w = Inr call" for call
    using built [OF b] accept other request_reaches_fetch [OF _ b] by auto
  have p2: "e = NativeError ''TypeError'' \<and> wants_auth options \<and> truthy (accessToken w)
         \<and> list_ex forbidden_in_value
              (normalize_value (''Bearer '' @ to_string rt (accessToken w)))
         \<and> request rt path options w = (Inl e, w)"
    if b: "build_call rt path options w = Inl e" for e
    using build_call_error [OF b] b by (simp add: request_def wants_auth_def)
  have p3: "fetch_log (snd (request rt path options w)) = fetch_log w
        \<or> (\<exists>call. build_call rt path options w = Inr call
              \<and> fetch_log (snd (request rt path options w)) = fetch_log w @ [call])"
  proof (cases "wants_auth options \<and> \<not> truthy (accessToken w)")
    case True
    then show ?thesis by (simp add: request_def wants_auth_def)
  next
    case False
    show ?thesis
    proof (cases "build_call rt path options w")
      case (Inl e)
      with p2 show ?thesis by simp
    next
      case (Inr call)
      with request_reaches_fetch [OF False Inr] show ?thesis by simp
    qed
  qed
  from p1 p2 p3 show ?thesis by blast
qed

text \<open>C6 at a form, a string and a number, and at a held token with a line feed.\<close>

theorem request_headers_and_body_witness:
  "fetch_log (snd (request (example_runtime unreachable) ''upload''
      \<lparr> opt_method = Some ''POST'', opt_body = FormValue (FormData [(''file'', ''a.csv'')]),
        opt_authenticated = Some False \<rparr> (module_init None)))
     = [\<lparr> url = ''https://api.example.test/upload'', http_method = ''POST'',
          headers = [''Accept'' \<mapsto> ''application/json''],
          body = Some (FormBody (FormData [(''file'', ''a.csv'')])) \<rparr>]
   \<and> fetch_log (snd (request (example_runtime unreachable) ''/x''
      \<lparr> opt_method = Some ''PUT'', opt_body = PlainValue (JStr ''raw''),
        opt_authenticated = None \<rparr> (signed_in ''abc'')))
     = [\<lparr> url = ''https://api.example.test/x'', http_method = ''PUT'',
          headers = [''Accept'' \<mapsto> ''application/json'', ''Content-Type'' \<mapsto> ''application/json'',
                     ''Authorization'' \<mapsto> ''Bearer abc''],
          body = Some (TextBody ''raw'') \<rparr>]
   \<and> fetch_log (snd (request (example_runtime unreachable) ''/x''
      \<lparr> opt_method = Some ''PUT'', opt_body = PlainValue (JNum 7),
        opt_authenticated = None \<rparr> (signed_in ''abc'')))
     = [\<lparr> url = ''https://api.example.test/x'', http_method = ''PUT'',
          headers = [''Accept'' \<mapsto> ''application/json'', ''Content-Type'' \<mapsto> ''application/json'',
                     ''Authorization'' \<mapsto> ''Bearer abc''],
          body = Some (TextBody ''7'') \<rparr>]
   \<and> request (example_runtime unreachable) ''/x'' no_options
        (signed_in [CHR ''a'', CHR 0x0A, CHR ''b''])
     = (Inl (NativeError ''TypeError''), signed_in [CHR ''a'', CHR 0x0A, CHR ''b''])"
proof -
  let ?rt = "example_runtime unreachable"
  let ?of = "\<lparr> opt_method = Some ''POST'', opt_body = FormValue (FormData [(''file'', ''a.csv'')]),
        opt_authenticated = Some False \<rparr>"
  let ?os = "\<lparr> opt_method = Some ''PUT'', opt_body = PlainValue (JStr ''raw''),
          opt_authenticated = None \<rparr>"
  let ?on = "\<lparr> opt_method = Some ''PUT'', opt_body = PlainValue (JNum 7),
          opt_authenticated = None \<rparr>"
  let ?cf = "\<lparr> url = ''https://api.example.test/upload'', http_method = ''POST'',
          headers = [''Accept'' \<mapsto> ''application/json''],
          body = Some (FormBody (FormData [(''file'', ''a.csv'')])) \<rparr>"
  let ?cs = "\<lparr> url = ''https://api.example.test/x'', http_method = ''PUT'',
          headers = [''Accept'' \<mapsto> ''application/json'', ''Content-Type'' \<mapsto> ''application/json'',
                     ''Authorization'' \<mapsto> ''Bearer abc''],
          body = Some (TextBody ''raw'') \<rparr>"
  let ?cn = "\<lparr> url = ''https://api.example.test/x'', http_method = ''PUT'',
          headers = [''Accept'' \<mapsto> ''application/json'', ''Content-Type'' \<mapsto> ''application/json'',
                     ''Authorization'' \<mapsto> ''Bearer abc''],
          body = Some (TextBody ''7'') \<rparr>"
  let ?bad = "signed_in [CHR ''a'', CHR 0x0A, CHR ''b'']"
  have a: "\<not> (wants_auth ?of \<and> \<not> truthy (accessToken (module_init None)))"
    by (simp add: wants_auth_def)
  have b: "\<not> (wants_auth opts \<and> \<not> truthy (accessToken (signed_in ''abc'')))" for opts
    by (simp add: example_defs)
  have kf: "build_call ?rt ''upload'' ?of (module_init None) = Inr ?cf"
    by (simp add: example_defs request_defs)
  have ks: "build_call ?rt ''/x'' ?os (signed_in ''abc'') = Inr ?cs"
    by (simp add: example_defs request_defs TOKEN_STORAGE_KEY_def)
  have kn: "build_call ?rt ''/x'' ?on (signed_in ''abc'') = Inr ?cn"
    by (simp add: example_defs request_defs TOKEN_STORAGE_KEY_def)
  have kb: "build_call ?rt ''/x'' no_options ?bad = Inl (NativeError ''TypeError'')"
    by (simp add: example_defs request_defs TOKEN_STORAGE_KEY_def)
  have d: "fetch_log (module_init None) = []" "fetch_log (signed_in ''abc'') = []"
    by (simp_all add: example_defs)
  note built = request_headers_and_body [THEN conjunct1, rule_format]
  have r1: "fetch_log (snd (request ?rt ''upload'' ?of (module_init None))) = [?cf]"
    using built [OF kf] a d by simp
  have r2: "fetch_log (snd (request ?rt ''/x'' ?os (signed_in ''abc''))) = [?cs]"
    using built [OF ks] b d by simp
  have r3: "fetch_log (snd (request ?rt ''/x'' ?on (signed_in ''abc''))) = [?cn]"
    using built [OF kn] b d by simp
  have r4: "request ?rt ''/x'' no_options ?bad = (Inl (NativeError ''TypeError''), ?bad)"
    using request_headers_and_body [THEN conjunct2, THEN conjunct1, rule_format, OF kb] by simp
  show ?thesis
    using r1 r2 r3 r4 by simp
qed

text \<open>
  C7. When the response to a request has status 204, the request returns \<open>null\<close>,
  whatever the content type and the body of the response are: nothing is read. For any
  other status, if the content type contains \<open>application/json\<close> the request takes
  what \<open>response.json()\<close> gives as the payload and settles on it (the unwrapped
  payload, or the error built from it), and raises what \<open>response.json()\<close> rejects with;
  otherwise it does the same with the text of the response.
\<close>

theorem no_content_and_negotiation:
  assumes "\<not> (wants_auth options \<and> \<not> truthy (accessToken w))"
    and "build_call rt path options w = Inr call"
    and "fetch rt (fetch_log w) call = Inr response"
  shows "(status response = 204 \<longrightarrow>
            request rt path options w
              = (Inr JNull, w\<lparr> fetch_log := fetch_log w @ [call] \<rparr>))
       \<and> (status response \<noteq> 204
            \<and> (\<exists>ct p q. content_type response = Some ct \<and> ct = p @ ''application/json'' @ q) \<longrightarrow>
            (\<forall>payload. json_body response = Inr payload \<longrightarrow>
               request rt path options w
                 = spec_outcome rt response payload (w\<lparr> fetch_log := fetch_log w @ [call] \<rparr>))
          \<and> (\<forall>e. json_body response = Inl e \<longrightarrow>
               request rt path options w = (Inl e, w\<lparr> fetch_log := fetch_log w @ [call] \<rparr>)))
       \<and> (status response \<noteq> 204
            \<and> \<not> (\<exists>ct p q. content_type response = Some ct \<and> ct = p @ ''application/json'' @ q) \<longrightarrow>
            (\<forall>t. text_body response = Inr t \<longrightarrow>
               request rt path options w
                 = spec_outcome rt response (JStr t) (w\<lparr> fetch_log := fetch_log w @ [call] \<rparr>))
          \<and> (\<forall>e. text_body response = Inl e \<longrightarrow>
               request rt path options w = (Inl e, w\<lparr> fetch_log := fetch_log w @ [call] \<rparr>)))"
proof -
  note r = request_after_reply [OF assms]
  have inc: "(\<exists>ct p q. content_type response = Some ct \<and> ct = p @ ''application/json'' @ q)
      \<longleftrightarrow> (\<exists>ct. content_type response = Some ct \<and> str_includes ct ''application/json'')"
    unfolding str_includes_iff by blast
  have j: "read_payload response = json_body response"
    if "status response \<noteq> 204"
      "\<exists>ct p q. content_type response = Some ct \<and> ct = p @ ''application/json'' @ q"
  proof -
    from that(2) inc obtain ct where c: "content_type response = Some ct"
        "str_includes ct ''application/json''"
      by blast
    then have "ct \<noteq> []" by (cases ct) auto
    with c that(1) show ?thesis by (simp add: read_payload_def)
  qed
  have t: "read_payload response = map_sum id JStr (text_body response)"
    if "status response \<noteq> 204"
      "\<not> (\<exists>ct p q. content_type response = Some ct \<and> ct = p @ ''application/json'' @ q)"
  proof (cases "content_type response")
    case None
    with that(1) show ?thesis by (simp add: read_payload_def)
  next
    case (Some ct)
    with that(2) inc have "\<not> str_includes ct ''application/json''" by blast
    with Some that(1) show ?thesis by (simp add: read_payload_def)
  qed
  have n: "status response = 204 \<Longrightarrow> request rt path options w
              = (Inr JNull, w\<lparr> fetch_log := fetch_log w @ [call] \<rparr>)"
    unfolding r by (simp add: read_payload_def spec_outcome_def spec_unwrap_def)
  have a: "request rt path options w
              = spec_outcome rt response payload (w\<lparr> fetch_log := fetch_log w @ [call] \<rparr>)"
    if "read_payload response = Inr payload" for payload
    unfolding r using that by simp
  have b: "request rt path options w = (Inl e, w\<lparr> fetch_log := fetch_log w @ [call] \<rparr>)"
    if "read_payload response = Inl e" for e
    unfolding r using that by simp
  show ?thesis
  proof (intro conjI impI allI)
    assume "status response = 204"
    then show "request rt path options w = (Inr JNull, w\<lparr> fetch_log := fetch_log w @ [call] \<rparr>)"
      by (rule n)
  next
    fix payload
    assume "status response \<noteq> 204
        \<and> (\<exists>ct p q. content_type response = Some ct \<and> ct = p @ ''application/json'' @ q)"
      and "json_body response = Inr payload"
    then show "request rt path options w
        = spec_outcome rt response payload (w\<lparr> fetch_log := fetch_log w @ [call] \<rparr>)"
      using j a by simp
  next
    fix e
    assume "status response \<noteq> 204
        \<and> (\<exists>ct p q. content_type response = Some ct \<and> ct = p @ ''application/json'' @ q)"
      and "json_body response = Inl e"
    then show "request rt path options w = (Inl e, w\<lparr> fetch_log := fetch_log w @ [call] \<rparr>)"
      using j b by simp
  next
    fix t'
    assume "status response \<noteq> 204
        \<and> \<not> (\<exists>ct p q. content_type response = Some ct \<and> ct = p @ ''application/json'' @ q)"
      and "text_body response = Inr t'"
    then show "request rt path options w
        = spec_outcome rt response (JStr t') (w\<lparr> fetch_log := fetch_log w @ [call] \<rparr>)"
      using t a by simp
  next
    fix e
    assume "status response \<noteq> 204
        \<and> \<not> (\<exists>ct p q. content_type response = Some ct \<and> ct = p @ ''application/json'' @ q)"
      and "text_body response = Inl e"
    then show "request rt path options w = (Inl e, w\<lparr> fetch_log := fetch_log w @ [call] \<rparr>)"
      using t b by simp
  qed
qed

text \<open>C7 at a 204 response that announces JSON, at a JSON and a text response of status
  200, and at a body that does not parse.\<close>

theorem no_content_and_negotiation_witness:
  "request (example_runtime (replying (json_response 204 (JObj [(''data'', JNum 1)]))))
      ''/admin/commodities/7''
      \<lparr> opt_method = Some ''DELETE'', opt_body = PlainValue JUndefined, opt_authenticated = None \<rparr>
      (signed_in ''abc'')
     = (Inr JNull,
        signed_in ''abc'' \<lparr> fetch_log :=
          [\<lparr> url = ''https://api.example.test/admin/commodities/7'', http_method = ''DELETE'',
              headers = [''Accept'' \<mapsto> ''application/json'', ''Authorization'' \<mapsto> ''Bearer abc''],
              body = None \<rparr>] \<rparr>)
   \<and> fst (request (example_runtime (replying (json_response 200 (JObj [(''data'', JNum 1)]))))
      ''/admin/commodities/7''
      \<lparr> opt_method = Some ''DELETE'', opt_body = PlainValue JUndefined, opt_authenticated = None \<rparr>
      (signed_in ''abc'')) = Inr (JNum 1)
   \<and> fst (request (example_runtime (replying (text_response 200 ''pong'')))
      ''/admin/commodities/7''
      \<lparr> opt_method = Some ''DELETE'', opt_body = PlainValue JUndefined, opt_authenticated = None \<rparr>
      (signed_in ''abc'')) = Inr (JStr ''pong'')
   \<and> fst (request (example_runtime (replying (malformed_response 200)))
      ''/admin/commodities/7''
      \<lparr> opt_method = Some ''DELETE'', opt_body = PlainValue JUndefined, opt_authenticated = None \<rparr>
      (signed_in ''abc'')) = Inl (NativeError ''SyntaxError'')"
proof -
  let ?o = "\<lparr> opt_method = Some ''DELETE'', opt_body = PlainValue JUndefined, opt_authenticated = None \<rparr>"
  let ?p = "JObj [(''data'', JNum 1)]"
  let ?c = "\<lparr> url = ''https://api.example.test/admin/commodities/7'', http_method = ''DELETE'',
              headers = [''Accept'' \<mapsto> ''application/json'', ''Authorization'' \<mapsto> ''Bearer abc''],
              body = None \<rparr>"
  let ?w = "signed_in ''abc''"
  have a: "\<not> (wants_auth ?o \<and> \<not> truthy (accessToken ?w))"
    by (simp add: example_defs)
  have k: "build_call (example_runtime (replying r)) ''/admin/commodities/7'' ?o ?w = Inr ?c" for r
    by (simp add: example_defs request_defs TOKEN_STORAGE_KEY_def)
  have b: "fetch (example_runtime (replying r)) (fetch_log ?w) ?c = Inr r" for r
    by (simp add: example_defs)
  have d: "fetch_log ?w = []"
    by (simp add: example_defs)
  have e: "status (json_response 204 ?p) = 204"
    by (simp add: example_defs)
  have f: "status (json_response 200 ?p) \<noteq> 204
      \<and> (\<exists>ct p q. content_type (json_response 200 ?p) = Some ct \<and> ct = p @ ''application/json'' @ q)"
    using str_includes_iff [of "''application/json; charset=utf-8''" "''application/json''"]
    by (simp add: example_defs)
  have g: "status (text_response 200 ''pong'') \<noteq> 204
      \<and> \<not> (\<exists>ct p q. content_type (text_response 200 ''pong'') = Some ct
              \<and> ct = p @ ''application/json'' @ q)"
    using str_includes_iff [of "''text/plain''" "''application/json''"]
    by (simp add: example_defs)
  have m: "status (malformed_response 200) \<noteq> 204
      \<and> (\<exists>ct p q. content_type (malformed_response 200) = Some ct \<and> ct = p @ ''application/json'' @ q)"
    using str_includes_iff [of "''application/json''" "''application/json''"]
    by (simp add: example_defs)
  have h: "json_body (json_response 200 ?p) = Inr ?p"
      "text_body (text_response 200 ''pong'') = Inr ''pong''"
      "json_body (malformed_response 200) = Inl (NativeError ''SyntaxError'')"
    by (simp_all add: example_defs)
  note t = no_content_and_negotiation [OF a k b]
  have r1: "request (example_runtime (replying (json_response 204 ?p))) ''/admin/commodities/7'' ?o ?w
      = (Inr JNull, ?w \<lparr> fetch_log := fetch_log ?w @ [?c] \<rparr>)"
    using t [of "json_response 204 ?p", THEN conjunct1, THEN mp, OF e] .
  have r2: "request (example_runtime (replying (json_response 200 ?p))) ''/admin/commodities/7'' ?o ?w
      = spec_outcome (example_runtime (replying (json_response 200 ?p))) (json_response 200 ?p) ?p
          (?w \<lparr> fetch_log := fetch_log ?w @ [?c] \<rparr>)"
    using t [of "json_response 200 ?p", THEN conjunct2, THEN conjunct1, THEN mp, OF f,
        THEN conjunct1, rule_format, OF h(1)] .
  have r3: "request (example_runtime (replying (text_response 200 ''pong''))) ''/admin/commodities/7'' ?o ?w
      = spec_outcome (example_runtime (replying (text_response 200 ''pong'')))
          (text_response 200 ''pong'') (JStr ''pong'') (?w \<lparr> fetch_log := fetch_log ?w @ [?c] \<rparr>)"
    using t [of "text_response 200 ''pong''", THEN conjunct2, THEN conjunct2, THEN mp, OF g,
        THEN conjunct1, rule_format, OF h(2)] .
  have r4: "request (example_runtime (replying (malformed_response 200))) ''/admin/commodities/7'' ?o ?w
      = (Inl (NativeError ''SyntaxError''), ?w \<lparr> fetch_log := fetch_log ?w @ [?c] \<rparr>)"
    using t [of "malformed_response 200", THEN conjunct2, THEN conjunct1, THEN mp, OF m,
        THEN conjunct2, rule_format, OF h(3)] .
  show ?thesis
    unfolding r1 r2 r3 r4 d
    by (simp add: spec_outcome_def spec_unwrap_def example_defs)
qed

subsection \<open>authApi and currencyApi\<close>

lemma login_success:
  assumes "login rt email password w = (Inr result, w')"
  shows "\<exists>w1 token. read_member result ''token'' = Inr token
           \<and> localStorage w1 = localStorage w \<and> w' = persistToken rt token w1"
proof -
  let ?o = "\<lparr> opt_method = Some ''POST'',
               opt_body = PlainValue (JObj [(''username'', JStr email), (''password'', JStr password)]),
               opt_authenticated = Some False \<rparr>"
  obtain res w1 where q: "request rt ''/auth/login'' ?o w = (res, w1)"
    by (cases "request rt ''/auth/login'' ?o w") auto
  from assms q obtain token where r: "res = Inr result" and m: "read_member result ''token'' = Inr token"
      and w': "w' = persistToken rt token w1"
    by (auto simp: login_def split: sum.splits)
  from q r have "localStorage w1 = localStorage w"
    using request_success_state [of rt "''/auth/login''" ?o w result w1] by auto
  with m w' show ?thesis by blast
qed

text \<open>What \<open>request\<close> raises or returns for a response whose payload is read.\<close>

lemma request_settled:
  assumes "\<not> (wants_auth options \<and> \<not> truthy (accessToken w))"
    and "build_call rt path options w = Inr call"
    and "fetch rt (fetch_log w) call = Inr response"
    and "read_payload response = Inr payload"
  shows "request rt path options w
           = spec_outcome rt response payload (w\<lparr> fetch_log := fetch_log w @ [call] \<rparr>)"
  using request_after_reply [OF assms(1-3)] assms(4) by simp

lemma read_member_value:
  assumes "v \<noteq> JNull" and "v \<noteq> JUndefined"
  shows "read_member v k = Inr (get_prop v k)"
  using assms by (cases v) auto

lemmas spec_defs =
  spec_outcome_def spec_unwrap_def spec_error_message_def payload_error_message_def
  payload_message_def

text \<open>
  C5 (as amended). After a successful login whose result carries as \<open>token\<close> a
  non-empty string without NUL, line feed or carriage return that does not end in a
  space or a tab, the client holds that token and, where there is a storage, the storage
  holds it under the fixed key. Every authenticated request made in a state that holds
  this token hands a call to \<open>fetch\<close> with the header \<open>Authorization: Bearer\<close>
  followed by the token.
\<close>

theorem login_stores_token:
  assumes "login rt email password w = (Inr result, w')"
    and "get_prop result ''token'' = JStr t"
    and "t \<noteq> []"
    and "\<not> list_ex forbidden_in_value t"
    and "\<not> http_whitespace (last t)"
  shows "accessToken w' = JStr t
     \<and> stored_token w' = (case localStorage w of None \<Rightarrow> None | Some items \<Rightarrow> Some t)
     \<and> (\<forall>w2 path options. accessToken w2 = JStr t \<and> wants_auth options \<longrightarrow>
           (\<exists>call. build_call rt path options w2 = Inr call
              \<and> fetch_log (snd (request rt path options w2)) = fetch_log w2 @ [call]
              \<and> headers call ''Authorization'' = Some (''Bearer '' @ t)))"
proof -
  from login_success [OF assms(1)] obtain w1 token where
    m: "read_member result ''token'' = Inr token" and
    s: "localStorage w1 = localStorage w" and w': "w' = persistToken rt token w1"
    by blast
  from m assms(2) have tok: "token = JStr t"
    by (cases result) auto
  have a: "accessToken w' = JStr t"
    by (simp add: w' tok persistToken_def)
  have b: "stored_token w' = (case localStorage w of None \<Rightarrow> None | Some items \<Rightarrow> Some t)"
    using assms(3) s by (simp add: w' tok persistToken_def stored_token_def split: option.splits)
  have c: "\<exists>call. build_call rt path options w2 = Inr call
              \<and> fetch_log (snd (request rt path options w2)) = fetch_log w2 @ [call]
              \<and> headers call ''Authorization'' = Some (''Bearer '' @ t)"
    if h: "accessToken w2 = JStr t" "wants_auth options" for w2 path options
  proof -
    let ?call = "\<lparr> url = resolveUrl rt path,
        http_method = (case opt_method options of None \<Rightarrow> ''GET'' | Some m \<Rightarrow> m),
        headers = (fst (prepare_body rt (opt_body options)))(''Authorization'' \<mapsto> ''Bearer '' @ t),
        body = snd (prepare_body rt (opt_body options)) \<rparr>"
    from h assms(3) have p: "\<not> (wants_auth options \<and> \<not> truthy (accessToken w2))"
      by simp
    have k: "build_call rt path options w2 = Inr ?call"
      using h assms(3) Headers_set_bearer [OF assms(3,5,4)]
      by (simp add: build_call_def wants_auth_def Let_def)
    from request_reaches_fetch [OF p k] k show ?thesis by simp
  qed
  from a b c show ?thesis by blast
qed

text \<open>
  C5 as stated fails in four ways. A login that succeeds with the empty string as token
  removes the key from the storage (line 25 tests the token for truthiness), and the
  next authenticated request fails on the client without a call to \<open>fetch\<close>. Where
  \<open>window\<close> is undefined a token is held but nothing is persisted (line 21). With a
  token that has a line feed inside, \<open>Headers.set\<close> (line 82) throws and the next
  authenticated request raises a \<open>TypeError\<close> without a call to \<open>fetch\<close>. With a token
  that ends in a space, the header that is sent carries the token without that space.
\<close>

theorem login_empty_token_not_stored:
  "fst (login (example_runtime (replying (json_response 200 (login_reply []))))
          ''admin'' ''secret'' (module_init (Some Map.empty)))
     = Inr (JObj [(''token'', JStr []), (''user'', JObj [(''id'', JStr ''u1'')])])
   \<and> stored_token (snd (login (example_runtime (replying (json_response 200 (login_reply []))))
          ''admin'' ''secret'' (module_init (Some Map.empty)))) = None
   \<and> fst (request (example_runtime (replying (json_response 200 (login_reply []))))
          ''/admin/commodities'' no_options
          (snd (login (example_runtime (replying (json_response 200 (login_reply []))))
             ''admin'' ''secret'' (module_init (Some Map.empty)))))
     = Inl (ApiError ''Not authenticated'' (Some 401) JUndefined)
   \<and> length (fetch_log (snd (request (example_runtime (replying (json_response 200 (login_reply []))))
          ''/admin/commodities'' no_options
          (snd (login (example_runtime (replying (json_response 200 (login_reply []))))
             ''admin'' ''secret'' (module_init (Some Map.empty))))))) = 1
   \<and> fst (login (example_runtime (replying (json_response 200 (login_reply ''abc''))))
          ''admin'' ''secret'' (module_init None))
     = Inr (JObj [(''token'', JStr ''abc''), (''user'', JObj [(''id'', JStr ''u1'')])])
   \<and> stored_token (snd (login (example_runtime (replying (json_response 200 (login_reply ''abc''))))
          ''admin'' ''secret'' (module_init None))) = None
   \<and> fst (login (example_runtime (replying (json_response 200
              (login_reply [CHR ''a'', CHR 0x0A, CHR ''b'']))))
          ''admin'' ''secret'' (module_init (Some Map.empty)))
     = Inr (JObj [(''token'', JStr [CHR ''a'', CHR 0x0A, CHR ''b'']),
                  (''user'', JObj [(''id'', JStr ''u1'')])])
   \<and> request (example_runtime (replying (json_response 200
              (login_reply [CHR ''a'', CHR 0x0A, CHR ''b'']))))
          ''/admin/commodities'' no_options
          (snd (login (example_runtime (replying (json_response 200
                  (login_reply [CHR ''a'', CHR 0x0A, CHR ''b'']))))
             ''admin'' ''secret'' (module_init (Some Map.empty))))
     = (Inl (NativeError ''TypeError''),
        snd (login (example_runtime (replying (json_response 200
                  (login_reply [CHR ''a'', CHR 0x0A, CHR ''b'']))))
             ''admin'' ''secret'' (module_init (Some Map.empty))))
   \<and> fst (login (example_runtime (replying (json_response 200 (login_reply ''abc ''))))
          ''admin'' ''secret'' (module_init (Some Map.empty)))
     = Inr (JObj [(''token'', JStr ''abc ''), (''user'', JObj [(''id'', JStr ''u1'')])])
   \<and> headers (last (fetch_log (snd (request
          (example_runtime (replying (json_response 200 (login_reply ''abc ''))))
          ''/admin/commodities'' no_options
          (snd (login (example_runtime (replying (json_response 200 (login_reply ''abc ''))))
             ''admin'' ''secret'' (module_init (Some Map.empty)))))))) ''Authorization''
     = Some ''Bearer abc''"
  by (simp add: login_def login_reply_def example_defs request_defs spec_defs TOKEN_STORAGE_KEY_def)

text \<open>The amended C5 at a login in a browser that returns the token \<open>abc\<close>,
  followed by an authenticated request.\<close>

theorem login_stores_token_witness:
  "fst (login (example_runtime (replying (json_response 200 (login_reply ''abc''))))
          ''admin'' ''secret'' (module_init (Some Map.empty)))
     = Inr (JObj [(''token'', JStr ''abc''), (''user'', JObj [(''id'', JStr ''u1'')])])
   \<and> accessToken (snd (login (example_runtime (replying (json_response 200 (login_reply ''abc''))))
          ''admin'' ''secret'' (module_init (Some Map.empty)))) = JStr ''abc''
   \<and> stored_token (snd (login (example_runtime (replying (json_response 200 (login_reply ''abc''))))
          ''admin'' ''secret'' (module_init (Some Map.empty)))) = Some ''abc''
   \<and> headers (last (fetch_log (snd (request
          (example_runtime (replying (json_response 200 (login_reply ''abc''))))
          ''/admin/commodities'' no_options
          (snd (login (example_runtime (replying (json_response 200 (login_reply ''abc''))))
             ''admin'' ''secret'' (module_init (Some Map.empty)))))))) ''Authorization''
     = Some ''Bearer abc''
   \<and> length (fetch_log (snd (request (example_runtime (replying (json_response 200 (login_reply ''abc''))))
          ''/admin/commodities'' no_options
          (snd (login (example_runtime (replying (json_response 200 (login_reply ''abc''))))
             ''admin'' ''secret'' (module_init (Some Map.empty))))))) = 2"
proof -
  let ?rt = "example_runtime (replying (json_response 200 (login_reply ''abc'')))"
  let ?w = "module_init (Some Map.empty)"
  let ?r = "JObj [(''token'', JStr ''abc''), (''user'', JObj [(''id'', JStr ''u1'')])]"
  let ?w' = "snd (login ?rt ''admin'' ''secret'' ?w)"
  have f: "fst (login ?rt ''admin'' ''secret'' ?w) = Inr ?r"
    by (simp add: login_def login_reply_def example_defs request_defs)
  then have l: "login ?rt ''admin'' ''secret'' ?w = (Inr ?r, ?w')"
    by (simp add: prod_eq_iff)
  have g: "get_prop ?r ''token'' = JStr ''abc''"
    by simp
  have n: "''abc'' \<noteq> []"
    by simp
  have v: "\<not> list_ex forbidden_in_value ''abc''" "\<not> http_whitespace (last ''abc'')"
    by (simp_all add: forbidden_in_value_def http_whitespace_def)
  have s: "localStorage ?w = Some Map.empty"
    by (simp add: example_defs)
  have o: "wants_auth no_options"
    by (simp add: wants_auth_def no_options_def)
  have k: "length (fetch_log ?w') = 1"
    by (simp add: login_def login_reply_def example_defs request_defs)
  note t = login_stores_token [OF l g n v]
  have a: "accessToken ?w' = JStr ''abc''"
    using t by (rule conjunct1)
  have b: "stored_token ?w' = Some ''abc''"
    using t [THEN conjunct2, THEN conjunct1] s by simp
  from t [THEN conjunct2, THEN conjunct2, rule_format, OF conjI [OF a o],
      of "''/admin/commodities''"]
  obtain call where
    c: "fetch_log (snd (request ?rt ''/admin/commodities'' no_options ?w')) = fetch_log ?w' @ [call]"
      "headers call ''Authorization'' = Some (''Bearer '' @ ''abc'')"
    by blast
  show ?thesis
    using f a b c k by simp
qed

text \<open>
  C8 (as amended). \<open>me\<close> returns \<open>null\<close> and leaves the state as it was (no call to
  \<open>fetch\<close>) when no token is held. When a token is held and the response to
  \<open>/auth/me\<close> has its payload read without error: for a status in 200-299 and a
  result that is not \<open>null\<close>, \<open>me\<close> returns the \<open>user\<close> of the result; for status
  401 it returns \<open>null\<close>; for any other status it raises the error of the request.
  Whatever the request raises that is not an \<open>ApiError\<close> of status 401 is raised by
  \<open>me\<close> unchanged.
\<close>

theorem me_contract:
  "(\<not> truthy (accessToken w) \<longrightarrow> me rt w = (Inr JNull, w))
   \<and> (truthy (accessToken w) \<longrightarrow>
        (\<forall>call response payload.
            build_call rt ''/auth/me'' no_options w = Inr call
            \<and> fetch rt (fetch_log w) call = Inr response
            \<and> read_payload response = Inr payload \<longrightarrow>
              (ok response \<and> spec_unwrap payload \<noteq> JNull \<and> spec_unwrap payload \<noteq> JUndefined \<longrightarrow>
                 fst (me rt w) = Inr (get_prop (spec_unwrap payload) ''user''))
            \<and> (status response = 401 \<longrightarrow> fst (me rt w) = Inr JNull)
            \<and> (\<not> ok response \<and> status response \<noteq> 401 \<longrightarrow>
                 fst (me rt w)
                   = Inl (ApiError (spec_error_message (status response) payload)
                            (Some (status response)) payload)))
      \<and> (\<forall>error w1.
            request rt ''/auth/me'' no_options w = (Inl error, w1) \<longrightarrow>
            me rt w = (if is_ApiError_401 error then Inr JNull else Inl error, w1)))"
proof -
  have srv: "(ok response \<and> spec_unwrap payload \<noteq> JNull \<and> spec_unwrap payload \<noteq> JUndefined \<longrightarrow>
                 fst (me rt w) = Inr (get_prop (spec_unwrap payload) ''user''))
            \<and> (status response = 401 \<longrightarrow> fst (me rt w) = Inr JNull)
            \<and> (\<not> ok response \<and> status response \<noteq> 401 \<longrightarrow>
                 fst (me rt w)
                   = Inl (ApiError (spec_error_message (status response) payload)
                            (Some (status response)) payload))"
    if held: "truthy (accessToken w)"
      and k: "build_call rt ''/auth/me'' no_options w = Inr call"
      and f: "fetch rt (fetch_log w) call = Inr response"
      and p: "read_payload response = Inr payload"
    for call response payload
  proof -
    from held have pre: "\<not> (wants_auth no_options \<and> \<not> truthy (accessToken w))" by simp
    note r = request_settled [OF pre k f p]
    show ?thesis
      using held read_member_value [of "spec_unwrap payload" "''user''"]
      by (auto simp: me_def r spec_outcome_def ok_def)
  qed
  show ?thesis
    using srv by (auto simp: me_def)
qed

text \<open>
  C8 as stated fails: for a response of status 401 that announces JSON and whose body
  does not parse, \<open>me\<close> raises the rejection of \<open>response.json()\<close> instead of returning
  \<open>null\<close>; and for a successful response without content (status 204) the result is
  \<open>null\<close>, so that the read of \<open>result.user\<close> (line 259) raises a \<open>TypeError\<close>.
\<close>

theorem me_rethrows_unreadable_401:
  "fetch (example_runtime (replying (malformed_response 401))) (fetch_log (signed_in ''abc''))
       \<lparr> url = ''https://api.example.test/auth/me'', http_method = ''GET'',
         headers = [''Accept'' \<mapsto> ''application/json'', ''Authorization'' \<mapsto> ''Bearer abc''],
         body = None \<rparr>
     = Inr (malformed_response 401)
   \<and> status (malformed_response 401) = 401
   \<and> fetch_log (snd (me (example_runtime (replying (malformed_response 401))) (signed_in ''abc'')))
     = [\<lparr> url = ''https://api.example.test/auth/me'', http_method = ''GET'',
          headers = [''Accept'' \<mapsto> ''application/json'', ''Authorization'' \<mapsto> ''Bearer abc''],
          body = None \<rparr>]
   \<and> fst (me (example_runtime (replying (malformed_response 401))) (signed_in ''abc''))
     = Inl (NativeError ''SyntaxError'')
   \<and> ok (json_response 204 JNull)
   \<and> fst (request (example_runtime (replying (json_response 204 JNull))) ''/auth/me'' no_options
        (signed_in ''abc'')) = Inr JNull
   \<and> fst (me (example_runtime (replying (json_response 204 JNull))) (signed_in ''abc''))
     = Inl (NativeError ''TypeError'')"
  by (simp add: me_def example_defs request_defs TOKEN_STORAGE_KEY_def)

text \<open>The amended C8 without a token, with a user returned, with a 401, with a 500 and
  with the service unreachable.\<close>

theorem me_contract_witness:
  "me (example_runtime unreachable) (module_init (Some Map.empty))
     = (Inr JNull, module_init (Some Map.empty))
   \<and> fst (me (example_runtime (replying (json_response 200
              (JObj [(''data'', JObj [(''user'', JObj [(''id'', JStr ''u1'')])])]))))
          (signed_in ''abc''))
     = Inr (JObj [(''id'', JStr ''u1'')])
   \<and> fst (me (example_runtime (replying (json_response 401 (JObj [])))) (signed_in ''abc''))
     = Inr JNull
   \<and> fst (me (example_runtime (replying (text_response 500 ''down''))) (signed_in ''abc''))
     = Inl (ApiError ''Request failed with status 500'' (Some 500) (JStr ''down''))
   \<and> fst (me (example_runtime unreachable) (signed_in ''abc''))
     = Inl (NativeError ''TypeError'')"
proof -
  let ?u = "JObj [(''id'', JStr ''u1'')]"
  let ?p = "JObj [(''data'', JObj [(''user'', ?u)])]"
  let ?off = "example_runtime unreachable"
  let ?w = "signed_in ''abc''"
  let ?c = "\<lparr> url = ''https://api.example.test/auth/me'', http_method = ''GET'',
         headers = [''Accept'' \<mapsto> ''application/json'', ''Authorization'' \<mapsto> ''Bearer abc''],
         body = None \<rparr>"
  have none: "\<not> truthy (accessToken (module_init (Some Map.empty)))"
    by (simp add: example_defs)
  have held: "truthy (accessToken ?w)"
    by (simp add: example_defs)
  have k: "build_call (example_runtime srv) ''/auth/me'' no_options ?w = Inr ?c" for srv
    by (simp add: example_defs request_defs TOKEN_STORAGE_KEY_def)
  have f: "fetch (example_runtime (replying r)) (fetch_log ?w) ?c = Inr r" for r
    by (simp add: example_defs)
  have p1: "read_payload (json_response 200 ?p) = Inr ?p"
    and p2: "read_payload (json_response 401 (JObj [])) = Inr (JObj [])"
    and p3: "read_payload (text_response 500 ''down'') = Inr (JStr ''down'')"
    by (simp_all add: example_defs read_payload_def)
  have s1: "ok (json_response 200 ?p) \<and> spec_unwrap ?p \<noteq> JNull \<and> spec_unwrap ?p \<noteq> JUndefined"
    by (simp add: example_defs ok_def spec_unwrap_def)
  have s2: "status (json_response 401 (JObj [])) = 401"
    by (simp add: example_defs)
  have s3: "\<not> ok (text_response 500 ''down'') \<and> status (text_response 500 ''down'') \<noteq> 401"
    by (simp add: example_defs ok_def)
  have q4: "request ?off ''/auth/me'' no_options ?w
      = (Inl (NativeError ''TypeError''), snd (request ?off ''/auth/me'' no_options ?w))"
    by (simp add: prod_eq_iff example_defs request_defs TOKEN_STORAGE_KEY_def)
  have r0: "me ?off (module_init (Some Map.empty)) = (Inr JNull, module_init (Some Map.empty))"
    using me_contract [of "module_init (Some Map.empty)" ?off, THEN conjunct1, THEN mp, OF none] .
  note held_case = me_contract [THEN conjunct2, THEN mp, OF held]
  note reply = held_case [THEN conjunct1, rule_format, OF conjI [OF k conjI [OF f]]]
  have r1: "fst (me (example_runtime (replying (json_response 200 ?p))) ?w)
      = Inr (get_prop (spec_unwrap ?p) ''user'')"
    using reply [OF p1, THEN conjunct1, THEN mp, OF s1] .
  have r2: "fst (me (example_runtime (replying (json_response 401 (JObj [])))) ?w) = Inr JNull"
    using reply [OF p2, THEN conjunct2, THEN conjunct1, THEN mp, OF s2] .
  have r3: "fst (me (example_runtime (replying (text_response 500 ''down''))) ?w)
      = Inl (ApiError (spec_error_message (status (text_response 500 ''down'')) (JStr ''down''))
               (Some (status (text_response 500 ''down''))) (JStr ''down''))"
    using reply [OF p3, THEN conjunct2, THEN conjunct2, THEN mp, OF s3] .
  have r4: "fst (me ?off ?w) = Inl (NativeError ''TypeError'')"
    using held_case [of ?off, THEN conjunct2, rule_format, OF q4] by simp
  show ?thesis
    using r0 r1 r2 r3 r4 by (simp add: spec_defs example_defs)
qed

text \<open>
  C9 (as amended). A call to \<open>logout\<close> while a token is held always leaves the client
  without a token, in the variable and in the storage. When the response to
  \<open>/auth/logout\<close> has its payload read without error, \<open>logout\<close> returns normally for
  a status in 200-299 and for status 401, and raises the error of the request for any
  other status. Whatever the request raises that is not an \<open>ApiError\<close> of status 401 is
  raised by \<open>logout\<close>.
\<close>

theorem logout_contract:
  assumes "truthy (accessToken w)"
  shows "accessToken (snd (logout rt w)) = JNull
     \<and> stored_token (snd (logout rt w)) = None
     \<and> (\<forall>call response payload.
           build_call rt ''/auth/logout''
               \<lparr> opt_method = Some ''POST'', opt_body = PlainValue JUndefined,
                 opt_authenticated = None \<rparr> w = Inr call
           \<and> fetch rt (fetch_log w) call = Inr response
           \<and> read_payload response = Inr payload \<longrightarrow>
             (ok response \<or> status response = 401 \<longrightarrow> fst (logout rt w) = Inr JUndefined)
           \<and> (\<not> ok response \<and> status response \<noteq> 401 \<longrightarrow>
                fst (logout rt w)
                  = Inl (ApiError (spec_error_message (status response) payload)
                           (Some (status response)) payload)))
     \<and> (\<forall>error w1.
           request rt ''/auth/logout''
               \<lparr> opt_method = Some ''POST'', opt_body = PlainValue JUndefined,
                 opt_authenticated = None \<rparr> w = (Inl error, w1) \<longrightarrow>
           fst (logout rt w) = (if is_ApiError_401 error then Inr JUndefined else Inl error))"
proof -
  let ?o = "\<lparr> opt_method = Some ''POST'', opt_body = PlainValue JUndefined,
                 opt_authenticated = None \<rparr>"
  have cleared: "accessToken (snd (logout rt w)) = JNull \<and> stored_token (snd (logout rt w)) = None"
    using assms by (auto simp: logout_def persistToken_null split: prod.splits sum.splits)
  have srv: "(ok response \<or> status response = 401 \<longrightarrow> fst (logout rt w) = Inr JUndefined)
           \<and> (\<not> ok response \<and> status response \<noteq> 401 \<longrightarrow>
                fst (logout rt w)
                  = Inl (ApiError (spec_error_message (status response) payload)
                           (Some (status response)) payload))"
    if k: "build_call rt ''/auth/logout'' ?o w = Inr call"
      and f: "fetch rt (fetch_log w) call = Inr response"
      and p: "read_payload response = Inr payload"
    for call response payload
  proof -
    from assms have pre: "\<not> (wants_auth ?o \<and> \<not> truthy (accessToken w))" by simp
    note r = request_settled [OF pre k f p]
    show ?thesis
      using assms by (auto simp: logout_def r spec_outcome_def ok_def)
  qed
  have req: "fst (logout rt w) = (if is_ApiError_401 error then Inr JUndefined else Inl error)"
    if "request rt ''/auth/logout'' ?o w = (Inl error, w1)" for error w1
    using that assms by (simp add: logout_def)
  from cleared srv req show ?thesis by blast
qed

text \<open>
  C9 as stated fails: for a response of status 401 that announces JSON and whose body
  does not parse, the rejection of \<open>response.json()\<close> surfaces to the caller of
  \<open>logout\<close>.
\<close>

theorem logout_rethrows_unreadable_401:
  "fetch (example_runtime (replying (malformed_response 401))) (fetch_log (signed_in ''abc''))
       \<lparr> url = ''https://api.example.test/auth/logout'', http_method = ''POST'',
         headers = [''Accept'' \<mapsto> ''application/json'', ''Authorization'' \<mapsto> ''Bearer abc''],
         body = None \<rparr>
     = Inr (malformed_response 401)
   \<and> status (malformed_response 401) = 401
   \<and> fetch_log (snd (logout (example_runtime (replying (malformed_response 401))) (signed_in ''abc'')))
     = [\<lparr> url = ''https://api.example.test/auth/logout'', http_method = ''POST'',
          headers = [''Accept'' \<mapsto> ''application/json'', ''Authorization'' \<mapsto> ''Bearer abc''],
          body = None \<rparr>]
   \<and> fst (logout (example_runtime (replying (malformed_response 401))) (signed_in ''abc''))
     = Inl (NativeError ''SyntaxError'')"
  by (simp add: logout_def example_defs request_defs TOKEN_STORAGE_KEY_def)

text \<open>The amended C9 with a 401, with the service unreachable, with a 204 and with a
  500.\<close>

theorem logout_contract_witness:
  "accessToken (snd (logout (example_runtime (replying (json_response 401 (JObj []))))
       (signed_in ''abc''))) = JNull
   \<and> stored_token (snd (logout (example_runtime (replying (json_response 401 (JObj []))))
       (signed_in ''abc''))) = None
   \<and> fst (logout (example_runtime (replying (json_response 401 (JObj [])))) (signed_in ''abc''))
       = Inr JUndefined
   \<and> accessToken (snd (logout (example_runtime unreachable) (signed_in ''abc''))) = JNull
   \<and> fst (logout (example_runtime unreachable) (signed_in ''abc'')) = Inl (NativeError ''TypeError'')
   \<and> fst (logout (example_runtime (replying (json_response 204 JNull))) (signed_in ''abc''))
       = Inr JUndefined
   \<and> fst (logout (example_runtime (replying (text_response 500 ''down''))) (signed_in ''abc''))
       = Inl (ApiError ''Request failed with status 500'' (Some 500) (JStr ''down''))
   \<and> stored_token (snd (logout (example_runtime (replying (text_response 500 ''down'')))
       (signed_in ''abc''))) = None"
proof -
  let ?o = "\<lparr> opt_method = Some ''POST'', opt_body = PlainValue JUndefined,
              opt_authenticated = None \<rparr>"
  let ?off = "example_runtime unreachable"
  let ?w = "signed_in ''abc''"
  let ?c = "\<lparr> url = ''https://api.example.test/auth/logout'', http_method = ''POST'',
         headers = [''Accept'' \<mapsto> ''application/json'', ''Authorization'' \<mapsto> ''Bearer abc''],
         body = None \<rparr>"
  have held: "truthy (accessToken ?w)"
    by (simp add: example_defs)
  have k: "build_call (example_runtime srv) ''/auth/logout'' ?o ?w = Inr ?c" for srv
    by (simp add: example_defs request_defs TOKEN_STORAGE_KEY_def)
  have f: "fetch (example_runtime (replying r)) (fetch_log ?w) ?c = Inr r" for r
    by (simp add: example_defs)
  have p1: "read_payload (json_response 401 (JObj [])) = Inr (JObj [])"
    and p2: "read_payload (json_response 204 JNull) = Inr JNull"
    and p3: "read_payload (text_response 500 ''down'') = Inr (JStr ''down'')"
    by (simp_all add: example_defs read_payload_def)
  have s1: "ok (json_response 401 (JObj [])) \<or> status (json_response 401 (JObj [])) = 401"
    and s2: "ok (json_response 204 JNull) \<or> status (json_response 204 JNull) = 401"
    and s3: "\<not> ok (text_response 500 ''down'') \<and> status (text_response 500 ''down'') \<noteq> 401"
    by (simp_all add: example_defs ok_def)
  have q: "request ?off ''/auth/logout'' ?o ?w
      = (Inl (NativeError ''TypeError''), snd (request ?off ''/auth/logout'' ?o ?w))"
    by (simp add: prod_eq_iff example_defs request_defs TOKEN_STORAGE_KEY_def)
  note t = logout_contract [OF held]
  note reply = t [THEN conjunct2, THEN conjunct2, THEN conjunct1, rule_format,
      OF conjI [OF k conjI [OF f]]]
  have r1: "fst (logout (example_runtime (replying (json_response 401 (JObj [])))) ?w) = Inr JUndefined"
    using reply [OF p1, THEN conjunct1, THEN mp, OF s1] .
  have r2: "fst (logout (example_runtime (replying (json_response 204 JNull))) ?w) = Inr JUndefined"
    using reply [OF p2, THEN conjunct1, THEN mp, OF s2] .
  have r3: "fst (logout (example_runtime (replying (text_response 500 ''down''))) ?w)
      = Inl (ApiError (spec_error_message (status (text_response 500 ''down'')) (JStr ''down''))
               (Some (status (text_response 500 ''down''))) (JStr ''down''))"
    using reply [OF p3, THEN conjunct2, THEN mp, OF s3] .
  have r4: "fst (logout ?off ?w) = Inl (NativeError ''TypeError'')"
    using t [of ?off, THEN conjunct2, THEN conjunct2, THEN conjunct2, rule_format, OF q] by simp
  show ?thesis
    using r1 r2 r3 r4 t [of "example_runtime (replying (json_response 401 (JObj [])))"]
      t [of ?off] t [of "example_runtime (replying (text_response 500 ''down''))"]
    by (simp add: spec_defs example_defs)
qed

text \<open>
  C10 (as amended). \<open>getRates\<close> returns the empty object and leaves the state as it was
  (no call to \<open>fetch\<close>) when \<open>symbols\<close> is not an array or is an empty array.
  Otherwise, when the response is successful, its payload is read without error and the
  result is neither \<open>null\<close> nor \<open>undefined\<close> and has no \<open>rates\<close> field,
  \<open>getRates\<close> returns the empty object.
\<close>

theorem getRates_empty:
  "(\<not> Array_isArray symbols \<or> elements symbols = [] \<longrightarrow>
      getRates rt base symbols w = (Inr (JObj []), w))
   \<and> (Array_isArray symbols \<and> elements symbols \<noteq> [] \<longrightarrow>
        (\<forall>call response payload.
           build_call rt (''/currency/rates?'' @ URLSearchParams_toString rt
                [(''base'', case base of None \<Rightarrow> ''USD'' | Some b \<Rightarrow> b),
                 (''symbols'', join_with '','' (map (join_item rt) (elements symbols)))])
              \<lparr> opt_method = None, opt_body = PlainValue JUndefined,
                opt_authenticated = Some False \<rparr> w = Inr call
           \<and> fetch rt (fetch_log w) call = Inr response
           \<and> ok response
           \<and> read_payload response = Inr payload
           \<and> spec_unwrap payload \<noteq> JNull \<and> spec_unwrap payload \<noteq> JUndefined
           \<and> \<not> has_key (spec_unwrap payload) ''rates'' \<longrightarrow>
           getRates rt base symbols w
             = (Inr (JObj []), w\<lparr> fetch_log := fetch_log w @ [call] \<rparr>)))"
proof -
  let ?o = "\<lparr> opt_method = None, opt_body = PlainValue JUndefined,
                opt_authenticated = Some False \<rparr>"
  let ?path = "''/currency/rates?'' @ URLSearchParams_toString rt
                [(''base'', case base of None \<Rightarrow> ''USD'' | Some b \<Rightarrow> b),
                 (''symbols'', join_with '','' (map (join_item rt) (elements symbols)))]"
  have srv: "getRates rt base symbols w
             = (Inr (JObj []), w\<lparr> fetch_log := fetch_log w @ [call] \<rparr>)"
    if arr: "Array_isArray symbols \<and> elements symbols \<noteq> []"
      and k: "build_call rt ?path ?o w = Inr call"
      and f: "fetch rt (fetch_log w) call = Inr response"
      and o: "ok response"
      and p: "read_payload response = Inr payload"
      and v: "spec_unwrap payload \<noteq> JNull" "spec_unwrap payload \<noteq> JUndefined"
      and n: "\<not> has_key (spec_unwrap payload) ''rates''"
    for call response payload
  proof -
    have pre: "\<not> (wants_auth ?o \<and> \<not> truthy (accessToken w))" by (simp add: wants_auth_def)
    note r = request_settled [OF pre k f p]
    have m: "read_member (spec_unwrap payload) ''rates'' = Inr JUndefined"
      using read_member_value [OF v] get_prop_absent [OF n] by simp
    show ?thesis
      unfolding getRates_def Let_def r using arr o m by (simp add: spec_outcome_def ok_def)
  qed
  show ?thesis
    using srv by (auto simp: getRates_def)
qed

text \<open>
  C10 as stated fails: a successful response without content (status 204), or one whose
  \<open>data\<close> is \<open>null\<close>, has no \<open>rates\<close> field, and the read of \<open>response.rates\<close>
  (line 383) raises a \<open>TypeError\<close> instead of giving the empty object; and a
  successful response that announces JSON with a body that does not parse has no
  \<open>rates\<close> either, and \<open>getRates\<close> raises the rejection of \<open>response.json()\<close>.
\<close>

theorem getRates_throws_on_null_result:
  "ok (json_response 204 JNull)
   \<and> fst (request (example_runtime (replying (json_response 204 JNull)))
        ''/currency/rates?base=USD&symbols=ZAR&''
        \<lparr> opt_method = None, opt_body = PlainValue JUndefined, opt_authenticated = Some False \<rparr>
        (module_init None)) = Inr JNull
   \<and> fst (getRates (example_runtime (replying (json_response 204 JNull))) None
        (JArr [JStr ''ZAR'']) (module_init None))
     = Inl (NativeError ''TypeError'')
   \<and> ok (json_response 200 (JObj [(''data'', JNull)]))
   \<and> fst (getRates (example_runtime (replying (json_response 200 (JObj [(''data'', JNull)])))) None
        (JArr [JStr ''ZAR'']) (module_init None))
     = Inl (NativeError ''TypeError'')
   \<and> ok (malformed_response 200)
   \<and> fst (getRates (example_runtime (replying (malformed_response 200))) None
        (JArr [JStr ''ZAR'']) (module_init None))
     = Inl (NativeError ''SyntaxError'')"
  by (simp add: getRates_def example_defs request_defs)

text \<open>The amended C10 at \<open>null\<close>, at the empty array, and at a response without
  \<open>rates\<close>.\<close>

theorem getRates_empty_witness:
  "getRates (example_runtime unreachable) None JNull (module_init None)
     = (Inr (JObj []), module_init None)
   \<and> getRates (example_runtime unreachable) (Some ''ZAR'') (JArr []) (module_init None)
     = (Inr (JObj []), module_init None)
   \<and> getRates (example_runtime (replying (json_response 200
              (JObj [(''data'', JObj [(''base_currency'', JStr ''USD'')])]))))
          None (JArr [JStr ''ZAR'', JStr ''EUR'']) (module_init None)
     = (Inr (JObj []),
        module_init None \<lparr> fetch_log :=
          [\<lparr> url = ''https://api.example.test/currency/rates?base=USD&symbols=ZAR,EUR&'',
              http_method = ''GET'', headers = [''Accept'' \<mapsto> ''application/json''],
              body = None \<rparr>] \<rparr>)"
proof -
  let ?p = "JObj [(''data'', JObj [(''base_currency'', JStr ''USD'')])]"
  let ?rt = "example_runtime (replying (json_response 200 ?p))"
  let ?s = "JArr [JStr ''ZAR'', JStr ''EUR'']"
  let ?o = "\<lparr> opt_method = None, opt_body = PlainValue JUndefined,
              opt_authenticated = Some False \<rparr>"
  let ?path = "''/currency/rates?'' @ URLSearchParams_toString ?rt
                [(''base'', case None of None \<Rightarrow> ''USD'' | Some b \<Rightarrow> b),
                 (''symbols'', join_with '','' (map (join_item ?rt) (elements ?s)))]"
  let ?c = "\<lparr> url = ''https://api.example.test/currency/rates?base=USD&symbols=ZAR,EUR&'',
              http_method = ''GET'', headers = [''Accept'' \<mapsto> ''application/json''],
              body = None \<rparr>"
  have a: "\<not> Array_isArray JNull \<or> elements JNull = []"
    by simp
  have b: "\<not> Array_isArray (JArr []) \<or> elements (JArr []) = []"
    by simp
  have c: "Array_isArray ?s \<and> elements ?s \<noteq> []"
    by simp
  have k: "build_call ?rt ?path ?o (module_init None) = Inr ?c"
    by (simp add: example_defs request_defs)
  have f: "fetch ?rt (fetch_log (module_init None)) ?c = Inr (json_response 200 ?p)"
    by (simp add: example_defs)
  have d: "ok (json_response 200 ?p)
      \<and> read_payload (json_response 200 ?p) = Inr ?p
      \<and> spec_unwrap ?p \<noteq> JNull \<and> spec_unwrap ?p \<noteq> JUndefined
      \<and> \<not> has_key (spec_unwrap ?p) ''rates''"
    by (simp add: example_defs ok_def read_payload_def spec_unwrap_def)
  have l: "fetch_log (module_init None) = []"
    by (simp add: example_defs)
  have r1: "getRates (example_runtime unreachable) None JNull (module_init None)
      = (Inr (JObj []), module_init None)"
    using getRates_empty [THEN conjunct1, THEN mp, OF a] .
  have r2: "getRates (example_runtime unreachable) (Some ''ZAR'') (JArr []) (module_init None)
      = (Inr (JObj []), module_init None)"
    using getRates_empty [THEN conjunct1, THEN mp, OF b] .
  have r3: "getRates ?rt None ?s (module_init None)
      = (Inr (JObj []),
         module_init None \<lparr> fetch_log := fetch_log (module_init None) @ [?c] \<rparr>)"
    using getRates_empty [THEN conjunct2, THEN mp, OF c, rule_format,
        OF conjI [OF k conjI [OF f d]]] .
  show ?thesis
    using r1 r2 r3 l by simp
qed

end
